theory Spec2Isabelle
  imports Complex_Main "HOL-Library.Word"
begin

section \<open>LidarICP: a shallow embedding of \<open>src/LidarICP.cpp\<close>\<close>

text \<open>
  The front-end is a C++ class whose methods mutate the member \<open>state_\<close> (the members are named here without the final underscore), talk to a
  SLAM back-end, to a world model and to two worker pools, and call into the MRPT
  library (poses, point clouds, ICP, pose graphs). The embedding keeps the class
  members in one record that every method takes and returns, writes each exception
  and each case of undefined behaviour as a value, and takes the library and the
  collaborators, whose code is not part of this file, as fields of a record of
  external operations.
\<close>

subsection \<open>C++ \<open>double\<close>\<close>

text \<open>
  The code compares doubles, adds two of them, multiplies a velocity by a time and
  divides a length by a time. A double is a finite number, an infinity or a NaN; a
  finite value carries the real number it stands for. The result of an arithmetic
  operation on finite operands is the exact result rounded to a double: the rounding
  (to the nearest double, to an infinity on overflow) is an operation of the machine,
  taken as the parameter \<open>rnd\<close> of the operations below, and an exact result zero is
  zero. A decimal literal stands for the rounding of its value. The sign of zero is not
  modelled. The infinities and NaN follow IEEE 754: every comparison with NaN is false,
  a nonzero finite number divided by zero is an infinity, zero divided by zero is NaN,
  and infinity times zero is NaN.
\<close>

datatype double = Finite real | PlusInf | MinusInf | NaN

fun is_finite :: "double \<Rightarrow> bool" where
  "is_finite (Finite r) = True"
| "is_finite PlusInf = False"
| "is_finite MinusInf = False"
| "is_finite NaN = False"

text \<open>\<open>a < b\<close> on doubles.\<close>

fun dless :: "double \<Rightarrow> double \<Rightarrow> bool" where
  "dless NaN b = False"
| "dless a NaN = False"
| "dless (Finite a) (Finite b) = (a < b)"
| "dless (Finite a) PlusInf = True"
| "dless (Finite a) MinusInf = False"
| "dless PlusInf b = False"
| "dless MinusInf MinusInf = False"
| "dless MinusInf b = True"

text \<open>\<open>a > b\<close> on doubles.\<close>

definition dgreater :: "double \<Rightarrow> double \<Rightarrow> bool" where
  "dgreater a b = dless b a"

text \<open>The sign of an infinite product or quotient.\<close>

definition signed_inf :: "bool \<Rightarrow> double" where
  "signed_inf positive = (if positive then PlusInf else MinusInf)"

text \<open>\<open>a * b\<close> on doubles.\<close>

fun dmul :: "(real \<Rightarrow> double) \<Rightarrow> double \<Rightarrow> double \<Rightarrow> double" where
  "dmul rnd NaN b = NaN"
| "dmul rnd a NaN = NaN"
| "dmul rnd (Finite a) (Finite b) = (if a * b = 0 then Finite 0 else rnd (a * b))"
| "dmul rnd (Finite a) PlusInf = (if a = 0 then NaN else signed_inf (0 < a))"
| "dmul rnd (Finite a) MinusInf = (if a = 0 then NaN else signed_inf (a < 0))"
| "dmul rnd PlusInf (Finite b) = (if b = 0 then NaN else signed_inf (0 < b))"
| "dmul rnd MinusInf (Finite b) = (if b = 0 then NaN else signed_inf (b < 0))"
| "dmul rnd PlusInf PlusInf = PlusInf"
| "dmul rnd PlusInf MinusInf = MinusInf"
| "dmul rnd MinusInf PlusInf = MinusInf"
| "dmul rnd MinusInf MinusInf = PlusInf"

text \<open>\<open>a / b\<close> on doubles; the zero divisor is read as \<open>+0.0\<close>.\<close>

fun ddiv :: "(real \<Rightarrow> double) \<Rightarrow> double \<Rightarrow> double \<Rightarrow> double" where
  "ddiv rnd NaN b = NaN"
| "ddiv rnd a NaN = NaN"
| "ddiv rnd (Finite a) (Finite b) =
     (if b \<noteq> 0 then (if a = 0 then Finite 0 else rnd (a / b))
      else if a = 0 then NaN else signed_inf (0 < a))"
| "ddiv rnd (Finite a) PlusInf = Finite 0"
| "ddiv rnd (Finite a) MinusInf = Finite 0"
| "ddiv rnd PlusInf (Finite b) = signed_inf (0 \<le> b)"
| "ddiv rnd MinusInf (Finite b) = signed_inf (b < 0)"
| "ddiv rnd PlusInf PlusInf = NaN"
| "ddiv rnd PlusInf MinusInf = NaN"
| "ddiv rnd MinusInf PlusInf = NaN"
| "ddiv rnd MinusInf MinusInf = NaN"

text \<open>\<open>a + b\<close> on doubles.\<close>

fun dadd :: "(real \<Rightarrow> double) \<Rightarrow> double \<Rightarrow> double \<Rightarrow> double" where
  "dadd rnd NaN b = NaN"
| "dadd rnd a NaN = NaN"
| "dadd rnd (Finite a) (Finite b) = (if a + b = 0 then Finite 0 else rnd (a + b))"
| "dadd rnd (Finite a) b = b"
| "dadd rnd a (Finite b) = a"
| "dadd rnd PlusInf PlusInf = PlusInf"
| "dadd rnd MinusInf MinusInf = MinusInf"
| "dadd rnd PlusInf MinusInf = NaN"
| "dadd rnd MinusInf PlusInf = NaN"

subsection \<open>\<open>std::map\<close> as a key-ordered association list\<close>

text \<open>
  The code iterates over its maps in key order, takes the last entry of one and the
  entry in the middle of it, so a map is the list of its entries in ascending key order.
  \<open>m[k] = v\<close> replaces the value of an existing key or inserts the entry at its place;
  \<open>m.erase(k)\<close> removes the key; reading \<open>m[k]\<close> of a missing key inserts a
  default-constructed value.
\<close>

type_synonym ('k, 'v) std_map = "('k \<times> 'v) list"

fun map_assign :: "'k::linorder \<Rightarrow> 'v \<Rightarrow> ('k, 'v) std_map \<Rightarrow> ('k, 'v) std_map" where
  "map_assign k v [] = [(k, v)]"
| "map_assign k v (e # m) =
     (if k < fst e then (k, v) # e # m
      else if fst e < k then e # map_assign k v m
      else (fst e, v) # m)"

definition map_erase :: "'k \<Rightarrow> ('k, 'v) std_map \<Rightarrow> ('k, 'v) std_map" where
  "map_erase k m = filter (\<lambda>e. fst e \<noteq> k) m"

definition map_keys :: "('k, 'v) std_map \<Rightarrow> 'k set" where
  "map_keys m = fst ` set m"

text \<open>\<open>m[k]\<close> as an rvalue: the value and the map, which gains the key when it was missing.\<close>

definition map_subscript ::
  "'v \<Rightarrow> 'k::linorder \<Rightarrow> ('k, 'v) std_map \<Rightarrow> 'v \<times> ('k, 'v) std_map" where
  "map_subscript dflt k m =
     (case map_of m k of
        Some v \<Rightarrow> (v, m)
      | None \<Rightarrow> (dflt, map_assign k dflt m))"

text \<open>
  \<open>std::map<double, TNodeID>\<close>: the keys are compared with \<open><\<close> on doubles, and two
  keys neither of which is less than the other are the same key. \<open>m[k] = v\<close> looks
  for the first entry whose key is not less than \<open>k\<close>; when \<open>k\<close> is not less than that
  key either, the entry keeps its key and takes the value \<open>v\<close>; otherwise the new entry
  is inserted before it. (NaN is neither less nor greater than any key: it is taken for
  the first key of a map that has one.)
\<close>

fun dmap_assign :: "double \<Rightarrow> 'v \<Rightarrow> (double, 'v) std_map \<Rightarrow> (double, 'v) std_map" where
  "dmap_assign k v [] = [(k, v)]"
| "dmap_assign k v (e # m) =
     (if dless (fst e) k then e # dmap_assign k v m
      else if dless k (fst e) then (k, v) # e # m
      else (fst e, v) # m)"

subsection \<open>Identifiers, time, poses\<close>

type_synonym TNodeID = "64 word"
type_synonym fid_t = "64 word"

text \<open>
  \<open>mrpt::Clock::time_point\<close> counts clock ticks; the default-constructed
  \<open>time_point()\<close> is tick 0.
\<close>

type_synonym time_point = int

definition time_point_default :: time_point where
  "time_point_default = 0"

text \<open>\<open>mrpt::math::TPose3D(x, y, z, yaw, pitch, roll)\<close>.\<close>

datatype TPose3D = TPose3D double double double double double double

fun tpose_x :: "TPose3D \<Rightarrow> double" where
  "tpose_x (TPose3D px py pz yw pt rl) = px"

fun tpose_y :: "TPose3D \<Rightarrow> double" where
  "tpose_y (TPose3D px py pz yw pt rl) = py"

fun tpose_z :: "TPose3D \<Rightarrow> double" where
  "tpose_z (TPose3D px py pz yw pt rl) = pz"

record TTwist3D =
  vx :: double
  vy :: double
  vz :: double
  wx :: double
  wy :: double
  wz :: double

record 'o CObservation =
  sensorLabel :: string
  timestamp :: time_point
  content :: 'o

subsection \<open>Parameters, front-end state, tasks\<close>

record TConfigParams =
  maxIterations :: nat
  skip_cov_calculation :: bool
  thresholdDist :: double
  thresholdAng :: double
  ALFA :: double
  corresponding_points_decimation :: "32 word"

record Parameters =
  min_dist_xyz_between_keyframes :: double
  min_time_between_scans :: double
  min_icp_goodness :: double
  decimate_to_point_count :: "32 word"
  max_KFs_local_graph :: nat
  mrpt_icp :: TConfigParams
  debug_save_all_icp_results :: bool

text \<open>
  The local pose graph (\<open>mrpt::graphs::CNetworkOfPoses\<close>): \<open>nodes\<close> is a
  \<open>std::map\<close> from id to pose, \<open>edges\<close> a multimap from a pair of ids to a pose, kept
  here as the list of its entries.
\<close>

record 'pose LocalPoseGraph =
  root :: TNodeID
  nodes :: "(TNodeID, 'pose) std_map"
  edges :: "((TNodeID \<times> TNodeID) \<times> 'pose) list"

text \<open>A \<open>shared_ptr\<close> is an option: \<open>None\<close> is the null pointer.\<close>

record ('o, 'pc, 'pose) MethodState =
  last_obs :: "'o CObservation option"
  last_obs_tim :: time_point
  last_points :: "'pc option"
  last_iter_twist :: TTwist3D
  accum_since_last_kf :: 'pose
  last_kf :: TNodeID
  local_pose_graph :: "'pose LocalPoseGraph"
  local_pcs :: "(TNodeID, 'pc option) std_map"
  checked_KF_pairs :: "(TNodeID \<times> TNodeID) set"

record 'pc DataForCheckEdges =
  to_id :: TNodeID
  from_id :: TNodeID
  to_pc :: "'pc option"
  from_pc :: "'pc option"
  init_guess_to_wrt_from :: TPose3D

text \<open>What the front-end sends to the back-end, and what the back-end answers.\<close>

datatype 'o backend_request =
  AddKeyFrame time_point "'o CObservation list"
| AddFactor TNodeID TNodeID TPose3D

datatype ProposeKF_Output = ProposeKF_Output bool "TNodeID option"

datatype AddFactor_Output = AddFactor_Output bool "fid_t option"

datatype log_level = LVL_DEBUG | LVL_INFO | LVL_WARN | LVL_ERROR

text \<open>
  The object: the members of the class, the requests the back-end has received so far,
  the lines logged so far, and the time of the last throttled warning.
  A worker pool is the list of its pending tasks; \<open>worldmodel_\<close> is null or answers
  \<open>entity_neighbors\<close>.
\<close>

record ('o, 'pc, 'pose) LidarICP =
  params :: Parameters
  state :: "('o, 'pc, 'pose) MethodState"
  raw_sensor_label :: string
  worldmodel :: "(TNodeID \<Rightarrow> TNodeID set) option"
  worker_pool :: "'o CObservation option list"
  worker_pool_past_KFs :: "'pc DataForCheckEdges list"
  slam_backend :: "'o backend_request list"
  logged :: "(log_level \<times> string) list"
  throttle_last :: "real option"

subsection \<open>The library and the collaborators\<close>

text \<open>
  None of these is code of this file. \<open>round_to_double\<close> is the rounding of the
  floating-point unit; \<open>Align3DPDF\<close> is the ICP kernel (\<open>Inl\<close> when it
  throws); \<open>pose_compose\<close> and \<open>pose_inverse_compose\<close> are \<open>+\<close> and \<open>-\<close> on
  \<open>CPose3D\<close>; \<open>dijkstra_nodes_estimate\<close> rewrites the graph's nodes from its root and
  edges (\<open>Inl\<close> when it throws); \<open>addKeyFrame\<close> and \<open>addFactor\<close> are the back-end's
  answers, which may depend on everything it was sent before (a future that never
  completes or that throws is not modelled); \<open>INVALID_ID\<close> and \<open>INVALID_FID\<close> are
  the constants of that name of the MOLA kernel.
\<close>

record ('o, 'pc, 'pose) externals =
  round_to_double :: "real \<Rightarrow> double"
  timeDifference :: "time_point \<Rightarrow> time_point \<Rightarrow> double"
  insertObservationPtr :: "'o CObservation \<Rightarrow> bool \<times> 'pc"
  pc_size :: "'pc \<Rightarrow> 64 word"
  Align3DPDF :: "TConfigParams \<Rightarrow> 'pc \<Rightarrow> 'pc \<Rightarrow> 'pose \<Rightarrow> string + ('pose \<times> double)"
  CPose3D :: "TPose3D \<Rightarrow> 'pose"
  asTPose :: "'pose \<Rightarrow> TPose3D"
  pose_Identity :: 'pose
  pose_compose :: "'pose \<Rightarrow> 'pose \<Rightarrow> 'pose"
  pose_inverse_compose :: "'pose \<Rightarrow> 'pose \<Rightarrow> 'pose"
  pose_norm :: "'pose \<Rightarrow> double"
  dijkstra_nodes_estimate :: "'pose LocalPoseGraph \<Rightarrow> string + 'pose LocalPoseGraph"
  addKeyFrame :: "'o backend_request list \<Rightarrow> 'o backend_request \<Rightarrow> ProposeKF_Output"
  addFactor :: "'o backend_request list \<Rightarrow> 'o backend_request \<Rightarrow> AddFactor_Output"
  INVALID_ID :: TNodeID
  INVALID_FID :: fid_t

subsection \<open>Outcomes and logging\<close>

text \<open>
  A method returns, throws (the object is as the throw left it) or runs into undefined
  behaviour. A logged line is its level and the fixed part of its text.
\<close>

datatype 's outcome = Returns 's | Throws string 's | Undefined

text \<open>The object a method leaves behind, whether it returned or threw.\<close>

definition final_object :: "'s outcome \<Rightarrow> 's option" where
  "final_object r = (case r of Returns s \<Rightarrow> Some s | Throws e s \<Rightarrow> Some s | Undefined \<Rightarrow> None)"

definition log_line ::
  "log_level \<Rightarrow> string \<Rightarrow> ('o, 'pc, 'pose) LidarICP \<Rightarrow> ('o, 'pc, 'pose) LidarICP" where
  "log_line lvl msg this = this\<lparr>logged := logged this @ [(lvl, msg)]\<rparr>"

text \<open>
  Modelled from the spec: \<open>MRPT_LOG_THROTTLE_WARN(period, msg)\<close> is a macro of the
  MRPT headers, which are not among the sources. The spec has it log "at most one
  warning per 5 s": the line is logged when no throttled line was logged before or the
  last one is more than \<open>period\<close> seconds old, and the clock reading is remembered.
\<close>

definition MRPT_LOG_THROTTLE_WARN ::
  "real \<Rightarrow> string \<Rightarrow> real \<Rightarrow> ('o, 'pc, 'pose) LidarICP \<Rightarrow> ('o, 'pc, 'pose) LidarICP" where
  "MRPT_LOG_THROTTLE_WARN period msg now this =
     (case throttle_last this of
        None \<Rightarrow> (log_line LVL_WARN msg this)\<lparr>throttle_last := Some now\<rparr>
      | Some t \<Rightarrow>
          if period < now - t
          then (log_line LVL_WARN msg this)\<lparr>throttle_last := Some now\<rparr>
          else this)"

subsection \<open>\<open>LidarICP::onNewObservation\<close>\<close>

text \<open>
  Lines 77 to 99. \<open>now\<close> is the clock reading at the call. \<open>ASSERT_(o)\<close> throws on a
  null pointer, and \<open>MRPT_TRY_END\<close> passes the exception on to the caller. The
  profiler calls are left out.
\<close>

definition onNewObservation ::
  "real \<Rightarrow> 'o CObservation option \<Rightarrow> ('o, 'pc, 'pose) LidarICP
     \<Rightarrow> ('o, 'pc, 'pose) LidarICP outcome" where
  "onNewObservation now o_ptr this =
     (case o_ptr of
        None \<Rightarrow> Throws ''Assert condition failed: o'' this
      | Some ob \<Rightarrow>
          if sensorLabel ob \<noteq> raw_sensor_label this then Returns this
          else
            let queued = length (worker_pool this) in
            if queued > 1
            then Returns (MRPT_LOG_THROTTLE_WARN 5
                   ''Dropping observation due to worker threads too busy.'' now this)
            else Returns (this\<lparr>worker_pool := worker_pool this @ [o_ptr]\<rparr>))"

subsection \<open>Exceptions caught at the task boundary\<close>

text \<open>
  The two task bodies run inside \<open>try { ... } catch (const std::exception& e)\<close>, whose
  handler logs the exception at ERROR level and returns (lines 277 to 280 and 447 to
  450). Lines logged at DEBUG level are left out of the embedding.
\<close>

definition catch_and_log ::
  "('o, 'pc, 'pose) LidarICP outcome \<Rightarrow> ('o, 'pc, 'pose) LidarICP outcome" where
  "catch_and_log r =
     (case r of
        Returns this \<Rightarrow> Returns this
      | Throws e this \<Rightarrow> Returns (log_line LVL_ERROR (''Exception: '' @ e) this)
      | Undefined \<Rightarrow> Undefined)"

subsection \<open>\<open>LidarICP::run_one_icp\<close>\<close>

text \<open>
  Lines 453 to 489. Both callers pass non-null clouds. The decimation is the quotient of
  two unsigned integers, cast to \<open>unsigned\<close>. The result is the mean of the pose found
  and the goodness, or the exception of the kernel.
\<close>

definition run_one_icp ::
  "('o, 'pc, 'pose) externals \<Rightarrow> Parameters \<Rightarrow> 'pc \<Rightarrow> 'pc \<Rightarrow> TPose3D
     \<Rightarrow> string + ('pose \<times> double)" where
  "run_one_icp ext p in_from_pc in_to_pc in_init_guess =
     (let options =
            (if decimate_to_point_count p > 0
             then (mrpt_icp p)\<lparr>corresponding_points_decimation :=
                    ucast (pc_size ext in_to_pc div ucast (decimate_to_point_count p))\<rparr>
             else mrpt_icp p);
          initial_guess = CPose3D ext in_init_guess
      in Align3DPDF ext options in_from_pc in_to_pc initial_guess)"

subsection \<open>\<open>LidarICP::doCheckForNonAdjacentKFs\<close>\<close>

text \<open>\<open>insertEdgeAtEnd(from, to, pose)\<close> of the pose graph.\<close>

definition insertEdgeAtEnd ::
  "TNodeID \<Rightarrow> TNodeID \<Rightarrow> 'pose \<Rightarrow> 'pose LocalPoseGraph \<Rightarrow> 'pose LocalPoseGraph" where
  "insertEdgeAtEnd a b ps g = g\<lparr>edges := edges g @ [((a, b), ps)]\<rparr>"

text \<open>
  The two assertions on the answer to \<open>addFactor\<close> (lines 245 to 248 and 437 to 440):
  \<open>factor_out.success\<close>, and \<open>new_factor_id\<close> holds an id other than
  \<open>INVALID_FID\<close>. The back-end accepted the factor when both hold.
\<close>

fun factor_success :: "AddFactor_Output \<Rightarrow> bool" where
  "factor_success (AddFactor_Output ok fid) = ok"

fun factor_id_valid :: "('o, 'pc, 'pose) externals \<Rightarrow> AddFactor_Output \<Rightarrow> bool" where
  "factor_id_valid ext (AddFactor_Output ok fid) =
     (case fid of None \<Rightarrow> False | Some i \<Rightarrow> i \<noteq> INVALID_FID ext)"

definition factor_accepted :: "('o, 'pc, 'pose) externals \<Rightarrow> AddFactor_Output \<Rightarrow> bool" where
  "factor_accepted ext r = (factor_success r \<and> factor_id_valid ext r)"

text \<open>
  Lines 409 to 412: how far the registration moved away from the initial guess,
  \<open>pos_correction / (init_guess.norm() + 0.01)\<close>.
\<close>

definition correction_percent ::
  "('o, 'pc, 'pose) externals \<Rightarrow> TPose3D \<Rightarrow> 'pose \<Rightarrow> double" where
  "correction_percent ext guess rel_pose =
     (let init_guess = CPose3D ext guess;
          pos_correction = pose_norm ext (pose_inverse_compose ext rel_pose init_guess)
      in ddiv (round_to_double ext) pos_correction
           (dadd (round_to_double ext) (pose_norm ext init_guess) (round_to_double ext 0.01)))"

text \<open>
  Lines 425 to 426: the test that accepts the new edge,
  \<open>icp_goodness > params_.min_icp_goodness && correction_percent < 0.20\<close>.
\<close>

definition probe_accepts ::
  "('o, 'pc, 'pose) externals \<Rightarrow> Parameters \<Rightarrow> TPose3D \<Rightarrow> 'pose \<Rightarrow> double \<Rightarrow> bool" where
  "probe_accepts ext p guess rel_pose icp_goodness =
     (dgreater icp_goodness (min_icp_goodness p)
      \<and> dless (correction_percent ext guess rel_pose) (round_to_double ext 0.20))"

text \<open>Lines 385 to 445, the body of the \<open>try\<close> block.\<close>

definition doCheckForNonAdjacentKFs_body ::
  "('o, 'pc, 'pose) externals \<Rightarrow> 'pc DataForCheckEdges \<Rightarrow> ('o, 'pc, 'pose) LidarICP
     \<Rightarrow> ('o, 'pc, 'pose) LidarICP outcome" where
  "doCheckForNonAdjacentKFs_body ext d this =
     (case from_pc d of
        None \<Rightarrow> Throws ''Assert condition failed: d->from_pc'' this
      | Some fpc \<Rightarrow>
     (case to_pc d of
        None \<Rightarrow> Throws ''Assert condition failed: d->to_pc'' this
      | Some tpc \<Rightarrow>
     (case run_one_icp ext (params this) fpc tpc (init_guess_to_wrt_from d) of
        Inl e \<Rightarrow> Throws e this
      | Inr (rel_pose, icp_goodness) \<Rightarrow>
          if probe_accepts ext (params this) (init_guess_to_wrt_from d) rel_pose icp_goodness
          then
            let f = AddFactor (from_id d) (to_id d) (asTPose ext rel_pose);
                factor_out = addFactor ext (slam_backend this) f;
                this1 = this\<lparr>slam_backend := slam_backend this @ [f]\<rparr>
            in if \<not> factor_success factor_out
               then Throws ''Assert condition failed: factor_out.success'' this1
               else if \<not> factor_id_valid ext factor_out
               then Throws ''Assert condition failed: factor_out.new_factor_id'' this1
               else Returns (this1\<lparr>state := (state this1)\<lparr>local_pose_graph :=
                      insertEdgeAtEnd (from_id d) (to_id d) rel_pose
                        (local_pose_graph (state this1))\<rparr>\<rparr>)
          else Returns this)))"

definition doCheckForNonAdjacentKFs ::
  "('o, 'pc, 'pose) externals \<Rightarrow> 'pc DataForCheckEdges \<Rightarrow> ('o, 'pc, 'pose) LidarICP
     \<Rightarrow> ('o, 'pc, 'pose) LidarICP outcome" where
  "doCheckForNonAdjacentKFs ext d this =
     catch_and_log (doCheckForNonAdjacentKFs_body ext d this)"

subsection \<open>\<open>LidarICP::checkForNearbyKFs\<close>\<close>

text \<open>
  Sequencing of steps that may throw: the next step runs on what the previous one
  returned.
\<close>

definition and_then :: "'s outcome \<Rightarrow> ('s \<Rightarrow> 's outcome) \<Rightarrow> 's outcome" where
  "and_then r f =
     (case r of Returns s \<Rightarrow> f s | Throws e s \<Rightarrow> Throws e s | Undefined \<Rightarrow> Undefined)"

text \<open>
  Lines 297 to 299: \<open>KF_distances[kfs.second.norm()] = kfs.first\<close> for each node in id
  order. A later node overwrites an earlier one at the same distance.
\<close>

definition KF_distances_of ::
  "('o, 'pc, 'pose) externals \<Rightarrow> (TNodeID, 'pose) std_map \<Rightarrow> (double, TNodeID) std_map" where
  "KF_distances_of ext nds =
     fold (\<lambda>kfs m. dmap_assign (pose_norm ext (snd kfs)) (fst kfs) m) nds []"

text \<open>
  \<open>getAdjacencyMatrix\<close> of the MRPT graph: each edge makes its two ends neighbours of
  each other. \<open>adj[n]\<close> is a set; the list below may repeat an id, which the erasures
  that read it do not notice.
\<close>

definition getAdjacencyMatrix ::
  "((TNodeID \<times> TNodeID) \<times> 'pose) list \<Rightarrow> TNodeID \<Rightarrow> TNodeID list" where
  "getAdjacencyMatrix es n =
     concat (map (\<lambda>e. (if fst (fst e) = n then [snd (fst e)] else [])
                      @ (if snd (fst e) = n then [fst (fst e)] else [])) es)"

text \<open>\<open>lpg.edges.erase(key)\<close>: every edge with that pair of ids goes.\<close>

definition edges_erase ::
  "TNodeID \<times> TNodeID \<Rightarrow> ((TNodeID \<times> TNodeID) \<times> 'pose) list
     \<Rightarrow> ((TNodeID \<times> TNodeID) \<times> 'pose) list" where
  "edges_erase k es = filter (\<lambda>e. fst e \<noteq> k) es"

text \<open>Lines 311 to 315.\<close>

definition erase_incident ::
  "TNodeID \<Rightarrow> TNodeID list \<Rightarrow> ((TNodeID \<times> TNodeID) \<times> 'pose) list
     \<Rightarrow> ((TNodeID \<times> TNodeID) \<times> 'pose) list" where
  "erase_incident id_to_remove others es =
     fold (\<lambda>other_id es'. edges_erase (other_id, id_to_remove)
                            (edges_erase (id_to_remove, other_id) es')) others es"

text \<open>
  Lines 304 to 316, the eviction loop, on the three things it changes: the distance map,
  the graph and the point clouds. \<open>KF_distances.rbegin()\<close> of an empty map is undefined
  behaviour: the loop then has no result (\<open>None\<close>).
\<close>

function evict_loop ::
  "nat \<Rightarrow> (TNodeID \<Rightarrow> TNodeID list)
     \<Rightarrow> (double, TNodeID) std_map \<Rightarrow> 'pose LocalPoseGraph \<Rightarrow> (TNodeID, 'pc option) std_map
     \<Rightarrow> ((double, TNodeID) std_map \<times> 'pose LocalPoseGraph \<times> (TNodeID, 'pc option) std_map) option"
  where
  "evict_loop max_KFs adj KF_distances lpg pcs =
     (if length (nodes lpg) > max_KFs
      then
        (if KF_distances = [] then None
         else
           let id_to_remove = snd (last KF_distances);
               KF_distances' = butlast KF_distances;
               lpg' = lpg\<lparr>nodes := map_erase id_to_remove (nodes lpg),
                          edges := erase_incident id_to_remove (adj id_to_remove) (edges lpg)\<rparr>;
               pcs' = map_erase id_to_remove pcs
           in evict_loop max_KFs adj KF_distances' lpg' pcs')
      else Some (KF_distances, lpg, pcs))"
  by pat_completeness auto
termination
  by (relation "measure (\<lambda>(max_KFs, adj, KF_distances, lpg, pcs). length KF_distances)") auto

declare evict_loop.simps [simp del]

text \<open>
  Lines 326 to 329: \<open>std::abs(static_cast<int64_t>(kf_id) - static_cast<int64_t>(root)) < 2\<close>.
  The difference and its absolute value are signed 64-bit; where they overflow the
  behaviour is undefined (\<open>None\<close>).
\<close>

definition ids_adjacent :: "TNodeID \<Rightarrow> TNodeID \<Rightarrow> bool option" where
  "ids_adjacent kf_id rt =
     (let diff = sint kf_id - sint rt
      in if diff \<le> - (2 ^ 63) \<or> 2 ^ 63 \<le> diff then None else Some (\<bar>diff\<bar> < 2))"

text \<open>Lines 332 to 333: the pair of ids, smaller one first.\<close>

definition pair_ids_of :: "TNodeID \<Rightarrow> TNodeID \<Rightarrow> TNodeID \<times> TNodeID" where
  "pair_ids_of kf_id rt = (min kf_id rt, max kf_id rt)"

text \<open>
  Lines 326 to 358: the flag \<open>edge_already_exists\<close> as it stands at line 360. The world
  model is consulted only while the flag is false, and the branch of line 348 assigns
  \<open>false\<close> to it.
\<close>

definition edge_already_exists_flag ::
  "bool \<Rightarrow> (TNodeID \<times> TNodeID) set \<Rightarrow> (TNodeID \<Rightarrow> TNodeID set) option
     \<Rightarrow> TNodeID \<Rightarrow> TNodeID \<Rightarrow> bool" where
  "edge_already_exists_flag adjacent checked wm kf_id rt =
     (let edge_already_exists = adjacent;
          edge_already_exists =
            (if pair_ids_of kf_id rt \<in> checked then True else edge_already_exists)
      in (case wm of
            None \<Rightarrow> edge_already_exists
          | Some entity_neighbors \<Rightarrow>
              if \<not> edge_already_exists
              then (let connected = entity_neighbors kf_id
                    in if rt \<in> connected then False else edge_already_exists)
              else edge_already_exists))"

text \<open>
  Lines 360 to 374: the probe task is built, put on the pool of the past keyframes, and
  the pair is marked. The three subscripts insert a default value when the key is
  missing.
\<close>

definition dispatch_probe ::
  "('o, 'pc, 'pose) externals \<Rightarrow> TNodeID \<Rightarrow> ('o, 'pc, 'pose) LidarICP
     \<Rightarrow> ('o, 'pc, 'pose) LidarICP" where
  "dispatch_probe ext kf_id this =
     (let st = state this;
          lpg = local_pose_graph st;
          (d_to_pc, pcs1) = map_subscript None kf_id (local_pcs st);
          (d_from_pc, pcs2) = map_subscript None (root lpg) pcs1;
          (kf_pose, nodes1) = map_subscript (pose_Identity ext) kf_id (nodes lpg);
          d = \<lparr>to_id = kf_id, from_id = root lpg, to_pc = d_to_pc, from_pc = d_from_pc,
               init_guess_to_wrt_from = asTPose ext kf_pose\<rparr>
      in this\<lparr>worker_pool_past_KFs := worker_pool_past_KFs this @ [d],
              state := st\<lparr>local_pose_graph := lpg\<lparr>nodes := nodes1\<rparr>,
                          local_pcs := pcs2,
                          checked_KF_pairs :=
                            insert (pair_ids_of kf_id (root lpg)) (checked_KF_pairs st)\<rparr>\<rparr>)"

text \<open>Lines 318 to 375: the choice of the candidate and the decision to probe it.\<close>

definition probe_median ::
  "('o, 'pc, 'pose) externals \<Rightarrow> (double, TNodeID) std_map \<Rightarrow> ('o, 'pc, 'pose) LidarICP
     \<Rightarrow> ('o, 'pc, 'pose) LidarICP outcome" where
  "probe_median ext KF_distances this =
     (if KF_distances \<noteq> []
      then
        let kf_id = snd (KF_distances ! (length KF_distances div 2));
            rt = root (local_pose_graph (state this))
        in (case ids_adjacent kf_id rt of
              None \<Rightarrow> Undefined
            | Some adjacent \<Rightarrow>
                if \<not> edge_already_exists_flag adjacent (checked_KF_pairs (state this))
                        (worldmodel this) kf_id rt
                then Returns (dispatch_probe ext kf_id this)
                else Returns this)
      else Returns this)"

text \<open>Lines 283 to 378.\<close>

definition checkForNearbyKFs ::
  "('o, 'pc, 'pose) externals \<Rightarrow> ('o, 'pc, 'pose) LidarICP
     \<Rightarrow> ('o, 'pc, 'pose) LidarICP outcome" where
  "checkForNearbyKFs ext this =
     (let st = state this;
          lpg1 = (local_pose_graph st)\<lparr>root := last_kf st,
                   nodes := map_assign (last_kf st) (pose_Identity ext) []\<rparr>
      in case dijkstra_nodes_estimate ext lpg1 of
           Inl e \<Rightarrow> Throws e (this\<lparr>state := st\<lparr>local_pose_graph := lpg1\<rparr>\<rparr>)
         | Inr lpg2 \<Rightarrow>
             let KF_distances = KF_distances_of ext (nodes lpg2);
                 adj = getAdjacencyMatrix (edges lpg2)
             in (case evict_loop (max_KFs_local_graph (params this)) adj KF_distances lpg2
                        (local_pcs st) of
                   None \<Rightarrow> Undefined
                 | Some (KF_distances', lpg3, pcs3) \<Rightarrow>
                     probe_median ext KF_distances'
                       (this\<lparr>state := st\<lparr>local_pose_graph := lpg3, local_pcs := pcs3\<rparr>\<rparr>)))"

subsection \<open>\<open>LidarICP::doProcessNewObservation\<close>\<close>

text \<open>Lines 204 to 205: should a new keyframe be created?\<close>

definition should_create_KF :: "Parameters \<Rightarrow> double \<Rightarrow> double \<Rightarrow> bool" where
  "should_create_KF p icp_goodness dist_eucl_since_last =
     (dgreater icp_goodness (min_icp_goodness p)
      \<and> dgreater dist_eucl_since_last (min_dist_xyz_between_keyframes p))"

text \<open>
  Lines 232 to 254: the factor between the last keyframe and the new one, when there is
  a last keyframe.
\<close>

definition add_odometry_factor ::
  "('o, 'pc, 'pose) externals \<Rightarrow> TNodeID \<Rightarrow> ('o, 'pc, 'pose) LidarICP
     \<Rightarrow> ('o, 'pc, 'pose) LidarICP outcome" where
  "add_odometry_factor ext new_kf_id this =
     (let st = state this
      in if last_kf st \<noteq> INVALID_ID ext
         then
           let f = AddFactor (last_kf st) new_kf_id (asTPose ext (accum_since_last_kf st));
               factor_out = addFactor ext (slam_backend this) f;
               this1 = this\<lparr>slam_backend := slam_backend this @ [f]\<rparr>
           in if \<not> factor_success factor_out
              then Throws ''Assert condition failed: factor_out.success'' this1
              else if \<not> factor_id_valid ext factor_out
              then Throws ''Assert condition failed: factor_out.new_factor_id'' this1
              else Returns (this1\<lparr>state := st\<lparr>local_pose_graph :=
                     insertEdgeAtEnd new_kf_id (last_kf st) (accum_since_last_kf st)
                       (local_pose_graph st)\<rparr>\<rparr>)
         else Returns this)"

text \<open>Lines 207 to 263: the new keyframe.\<close>

definition create_new_KF ::
  "('o, 'pc, 'pose) externals \<Rightarrow> 'o CObservation \<Rightarrow> 'pc \<Rightarrow> ('o, 'pc, 'pose) LidarICP
     \<Rightarrow> ('o, 'pc, 'pose) LidarICP outcome" where
  "create_new_KF ext ob this_obs_points this =
     (let kf = AddKeyFrame (timestamp ob) [ob];
          kf_out = addKeyFrame ext (slam_backend this) kf;
          this1 = this\<lparr>slam_backend := slam_backend this @ [kf]\<rparr>
      in (case kf_out of ProposeKF_Output ok new_kf_id \<Rightarrow>
            if \<not> ok then Throws ''Assert condition failed: kf_out.success'' this1
            else
              (case new_kf_id of
                 None \<Rightarrow> Throws ''Assert condition failed: kf_out.new_kf_id'' this1
               | Some new_id \<Rightarrow>
                   if new_id = INVALID_ID ext
                   then Throws ''Assert condition failed: kf_out.new_kf_id'' this1
                   else
                     and_then
                       (add_odometry_factor ext new_id
                          (this1\<lparr>state := (state this1)\<lparr>local_pcs :=
                             map_assign new_id (Some this_obs_points)
                               (local_pcs (state this1))\<rparr>\<rparr>))
                       (\<lambda>this2. Returns
                          ((log_line LVL_INFO ''New KF'' this2)\<lparr>state := (state this2)
                             \<lparr>accum_since_last_kf := pose_Identity ext,
                              last_kf := new_id\<rparr>\<rparr>)))))"

text \<open>
  Lines 157 to 165: the guess of the velocity model, the last twist times the time
  since the last scan, with no rotation.
\<close>

definition velocity_model_guess ::
  "('o, 'pc, 'pose) externals \<Rightarrow> TTwist3D \<Rightarrow> double \<Rightarrow> TPose3D" where
  "velocity_model_guess ext tw dt =
     TPose3D (dmul (round_to_double ext) (vx tw) dt) (dmul (round_to_double ext) (vy tw) dt)
       (dmul (round_to_double ext) (vz tw) dt) (Finite 0) (Finite 0) (Finite 0)"

text \<open>Lines 180 to 182: the new twist, the translation found divided by the time.\<close>

definition velocity_model_update ::
  "('o, 'pc, 'pose) externals \<Rightarrow> TTwist3D \<Rightarrow> 'pose \<Rightarrow> double \<Rightarrow> TTwist3D" where
  "velocity_model_update ext tw rel_pose dt =
     tw\<lparr>vx := ddiv (round_to_double ext) (tpose_x (asTPose ext rel_pose)) dt,
        vy := ddiv (round_to_double ext) (tpose_y (asTPose ext rel_pose)) dt,
        vz := ddiv (round_to_double ext) (tpose_z (asTPose ext rel_pose)) dt\<rparr>"

text \<open>
  Lines 157 to 159: the time since the last scan. \<open>prev_obs_tim\<close> and, below,
  \<open>prev_points\<close> are the locals \<open>last_obs_tim\<close> and \<open>last_points\<close> of lines 131
  and 133.
\<close>

definition time_since_last_scan ::
  "('o, 'pc, 'pose) externals \<Rightarrow> time_point \<Rightarrow> time_point \<Rightarrow> double" where
  "time_since_last_scan ext prev_obs_tim this_obs_tim =
     (if prev_obs_tim \<noteq> time_point_default
      then timeDifference ext prev_obs_tim this_obs_tim else Finite 0)"

text \<open>
  Lines 154 to 264: the registration against the last cloud, the velocity model, the
  accumulated pose and the keyframe.
\<close>

definition register_and_create_KF ::
  "('o, 'pc, 'pose) externals \<Rightarrow> 'o CObservation \<Rightarrow> 'pc \<Rightarrow> time_point \<Rightarrow> 'pc
     \<Rightarrow> ('o, 'pc, 'pose) LidarICP \<Rightarrow> ('o, 'pc, 'pose) LidarICP outcome" where
  "register_and_create_KF ext ob this_obs_points prev_obs_tim prev_points this =
     (let st = state this;
          p = params this;
          dt = time_since_last_scan ext prev_obs_tim (timestamp ob);
          init_guess = velocity_model_guess ext (last_iter_twist st) dt
      in (case run_one_icp ext p prev_points this_obs_points init_guess of
            Inl e \<Rightarrow> Throws e this
          | Inr (rel_pose, icp_goodness) \<Rightarrow>
              let tw' = velocity_model_update ext (last_iter_twist st) rel_pose dt;
                  accum = pose_compose ext (accum_since_last_kf st) rel_pose;
                  this1 = this\<lparr>state := st\<lparr>last_iter_twist := tw',
                                              accum_since_last_kf := accum\<rparr>\<rparr>;
                  dist_eucl_since_last = pose_norm ext accum
              in if should_create_KF p icp_goodness dist_eucl_since_last
                 then create_new_KF ext ob this_obs_points this1
                 else Returns this1))"

text \<open>Lines 154 to 275: the above, then the check of the nearby keyframes.\<close>

definition register_scan ::
  "('o, 'pc, 'pose) externals \<Rightarrow> 'o CObservation \<Rightarrow> 'pc \<Rightarrow> time_point \<Rightarrow> 'pc
     \<Rightarrow> ('o, 'pc, 'pose) LidarICP \<Rightarrow> ('o, 'pc, 'pose) LidarICP outcome" where
  "register_scan ext ob this_obs_points prev_obs_tim prev_points this =
     and_then
       (register_and_create_KF ext ob this_obs_points prev_obs_tim prev_points this)
       (\<lambda>this2. if length (local_pcs (state this2)) > 1
                then checkForNearbyKFs ext this2
                else Returns this2)"

text \<open>Lines 115 to 117: the scan comes too soon after the last one.\<close>

definition too_close_in_time ::
  "('o, 'pc, 'pose) externals \<Rightarrow> ('o, 'pc, 'pose) LidarICP \<Rightarrow> 'o CObservation \<Rightarrow> bool" where
  "too_close_in_time ext this ob =
     (last_obs_tim (state this) \<noteq> time_point_default
      \<and> dless (timeDifference ext (last_obs_tim (state this)) (timestamp ob))
              (min_time_between_scans (params this)))"

text \<open>Lines 108 to 275, the body of the \<open>try\<close> block.\<close>

definition doProcessNewObservation_body ::
  "('o, 'pc, 'pose) externals \<Rightarrow> 'o CObservation option \<Rightarrow> ('o, 'pc, 'pose) LidarICP
     \<Rightarrow> ('o, 'pc, 'pose) LidarICP outcome" where
  "doProcessNewObservation_body ext o_ptr this =
     (case o_ptr of
        None \<Rightarrow> Throws ''Assert condition failed: o'' this
      | Some ob \<Rightarrow>
          if too_close_in_time ext this ob
          then Returns this
          else
            let st = state this;
                (have_points, this_obs_points) = insertObservationPtr ext ob;
                prev_obs_tim = last_obs_tim st;
                prev_points = last_points st;
                this1 = this\<lparr>state := st\<lparr>last_obs := o_ptr,
                                            last_obs_tim := timestamp ob,
                                            last_points := Some this_obs_points\<rparr>\<rparr>
            in (case prev_points of
                  None \<Rightarrow> Returns this1
                | Some lp \<Rightarrow>
                    if \<not> have_points
                    then Returns (log_line LVL_WARN
                           ''Observation could not be converted into a pointcloud. Doing nothing.''
                           this1)
                    else register_scan ext ob this_obs_points prev_obs_tim lp this1))"

definition doProcessNewObservation ::
  "('o, 'pc, 'pose) externals \<Rightarrow> 'o CObservation option \<Rightarrow> ('o, 'pc, 'pose) LidarICP
     \<Rightarrow> ('o, 'pc, 'pose) LidarICP outcome" where
  "doProcessNewObservation ext o_ptr this =
     catch_and_log (doProcessNewObservation_body ext o_ptr this)"

text \<open>\<open>LidarICP::reset\<close> (line 75) puts a default-constructed \<open>MethodState\<close> in place.\<close>

definition reset ::
  "('o, 'pc, 'pose) MethodState \<Rightarrow> ('o, 'pc, 'pose) LidarICP \<Rightarrow> ('o, 'pc, 'pose) LidarICP" where
  "reset MethodState_default this = this\<lparr>state := MethodState_default\<rparr>"

subsection \<open>Runs\<close>

text \<open>
  What happens to the object during a run, one event after the other: the sensor driver
  calls \<open>onNewObservation\<close>; the worker of the odometry pool takes the oldest pending
  task and runs \<open>doProcessNewObservation\<close> on it; a worker of the other pool takes the
  oldest pending probe and runs \<open>doCheckForNonAdjacentKFs\<close> on it; other modules change
  what the world model answers. The tasks run one at a time, and an exception that
  reaches the caller leaves the object as it is. Beside the object, a run keeps the list
  of all the probes handed to the pool of the past keyframes; a run that meets undefined
  behaviour has no result.
\<close>

datatype 'o event =
  SensorDriver real "'o CObservation option"
| OdometryWorker
| ProbeWorker
| WorldModelChange "(TNodeID \<Rightarrow> TNodeID set) option"

definition run_event ::
  "('o, 'pc, 'pose) externals \<Rightarrow> 'o event \<Rightarrow> ('o, 'pc, 'pose) LidarICP
     \<Rightarrow> ('o, 'pc, 'pose) LidarICP outcome" where
  "run_event ext ev this =
     (case ev of
        SensorDriver now o_ptr \<Rightarrow> onNewObservation now o_ptr this
      | OdometryWorker \<Rightarrow>
          (case worker_pool this of
             [] \<Rightarrow> Returns this
           | o_ptr # pending \<Rightarrow>
               doProcessNewObservation ext o_ptr (this\<lparr>worker_pool := pending\<rparr>))
      | ProbeWorker \<Rightarrow>
          (case worker_pool_past_KFs this of
             [] \<Rightarrow> Returns this
           | d # pending \<Rightarrow>
               doCheckForNonAdjacentKFs ext d (this\<lparr>worker_pool_past_KFs := pending\<rparr>))
      | WorldModelChange wm \<Rightarrow> Returns (this\<lparr>worldmodel := wm\<rparr>))"

text \<open>
  The probes an event hands to the pool: what the pool holds after the event beyond what
  it held when the event began (a probe worker first takes one out).
\<close>

definition pool_at_start :: "'o event \<Rightarrow> ('o, 'pc, 'pose) LidarICP \<Rightarrow> 'pc DataForCheckEdges list"
  where
  "pool_at_start ev this =
     (case ev of
        ProbeWorker \<Rightarrow> tl (worker_pool_past_KFs this)
      | _ \<Rightarrow> worker_pool_past_KFs this)"

fun run ::
  "('o, 'pc, 'pose) externals \<Rightarrow> 'o event list
     \<Rightarrow> ('o, 'pc, 'pose) LidarICP \<times> 'pc DataForCheckEdges list
     \<Rightarrow> (('o, 'pc, 'pose) LidarICP \<times> 'pc DataForCheckEdges list) option" where
  "run ext [] (this, submitted) = Some (this, submitted)"
| "run ext (ev # evs) (this, submitted) =
     (case final_object (run_event ext ev this) of
        Some this' \<Rightarrow>
          run ext evs
            (this', submitted
                    @ drop (length (pool_at_start ev this)) (worker_pool_past_KFs this'))
      | None \<Rightarrow> None)"

text \<open>The pair of ids that lines 332 to 333 make of the two keyframes of a probe.\<close>

definition probe_pair :: "'pc DataForCheckEdges \<Rightarrow> TNodeID \<times> TNodeID" where
  "probe_pair d = pair_ids_of (to_id d) (from_id d)"

text \<open>The two keyframes a probe is about, as an unordered pair.\<close>

definition unordered_pair :: "'pc DataForCheckEdges \<Rightarrow> TNodeID set" where
  "unordered_pair d = {to_id d, from_id d}"

subsection \<open>Observations on outcomes\<close>

text \<open>The requests the back-end received between two moments.\<close>

definition requests_since ::
  "('o, 'pc, 'pose) LidarICP \<Rightarrow> ('o, 'pc, 'pose) LidarICP \<Rightarrow> 'o backend_request list" where
  "requests_since before after = drop (length (slam_backend before)) (slam_backend after)"

fun is_AddKeyFrame :: "'o backend_request \<Rightarrow> bool" where
  "is_AddKeyFrame (AddKeyFrame t obs) = True"
| "is_AddKeyFrame (AddFactor a b ps) = False"

text \<open>Cloud coherence: the graph has a node exactly for the ids that have a point cloud.\<close>

definition cloud_coherent :: "('o, 'pc, 'pose) LidarICP \<Rightarrow> bool" where
  "cloud_coherent this =
     (map_keys (nodes (local_pose_graph (state this))) = map_keys (local_pcs (state this)))"

text \<open>
  The ids tied to \<open>r\<close> by a chain of edges, whatever their direction: \<open>r\<close> itself
  and, in as many passes over the edges as there are edges, the other end of every edge
  that has one end among the ids found so far.
\<close>

fun connect_edge :: "(TNodeID \<times> TNodeID) \<times> 'pose \<Rightarrow> TNodeID list \<Rightarrow> TNodeID list" where
  "connect_edge ((a, b), p) seen =
     (if a \<in> set seen \<and> b \<notin> set seen then b # seen
      else if b \<in> set seen \<and> a \<notin> set seen then a # seen
      else seen)"

fun connect_sweeps ::
  "'a list \<Rightarrow> ((TNodeID \<times> TNodeID) \<times> 'pose) list \<Rightarrow> TNodeID list \<Rightarrow> TNodeID list" where
  "connect_sweeps [] es seen = seen"
| "connect_sweeps (x # fuel) es seen = connect_sweeps fuel es (fold connect_edge es seen)"

definition connected_ids ::
  "((TNodeID \<times> TNodeID) \<times> 'pose) list \<Rightarrow> TNodeID \<Rightarrow> TNodeID set" where
  "connected_ids es r = set (connect_sweeps es es [r])"

subsection \<open>Relations between the object before and after a step\<close>


text \<open>What the creation of a keyframe leaves alone.\<close>

definition promotion_frame ::
  "('o, 'pc, 'pose) LidarICP \<Rightarrow> ('o, 'pc, 'pose) LidarICP \<Rightarrow> bool" where
  "promotion_frame this this' =
     (worker_pool_past_KFs this' = worker_pool_past_KFs this
      \<and> checked_KF_pairs (state this') = checked_KF_pairs (state this)
      \<and> last_iter_twist (state this') = last_iter_twist (state this))"

text \<open>The probe pool and the set of checked pairs are as before.\<close>

definition probes_unchanged ::
  "('o, 'pc, 'pose) LidarICP \<Rightarrow> ('o, 'pc, 'pose) LidarICP \<Rightarrow> bool" where
  "probes_unchanged this this' =
     (worker_pool_past_KFs this' = worker_pool_past_KFs this
      \<and> checked_KF_pairs (state this') = checked_KF_pairs (state this))"

text \<open>
  One probe was put on the pool, for a pair that was not among the checked ones and
  now is.
\<close>

definition one_new_probe ::
  "('o, 'pc, 'pose) LidarICP \<Rightarrow> ('o, 'pc, 'pose) LidarICP \<Rightarrow> bool" where
  "one_new_probe this this' =
     (\<exists>d. worker_pool_past_KFs this' = worker_pool_past_KFs this @ [d]
          \<and> probe_pair d \<notin> checked_KF_pairs (state this)
          \<and> checked_KF_pairs (state this')
              = insert (probe_pair d) (checked_KF_pairs (state this)))"

definition probe_step ::
  "('o, 'pc, 'pose) LidarICP \<Rightarrow> ('o, 'pc, 'pose) LidarICP \<Rightarrow> bool" where
  "probe_step this this' = (probes_unchanged this this' \<or> one_new_probe this this')"

text \<open>The probes an event of a run put on the pool.\<close>

definition newly_submitted ::
  "'o event \<Rightarrow> ('o, 'pc, 'pose) LidarICP \<Rightarrow> ('o, 'pc, 'pose) LidarICP
     \<Rightarrow> 'pc DataForCheckEdges list" where
  "newly_submitted ev this this' =
     drop (length (pool_at_start ev this)) (worker_pool_past_KFs this')"

section \<open>A world on a line, for concrete runs\<close>

text \<open>
  The theorems below hold for all external operations. To run the front-end on concrete
  inputs this section fixes one choice: the robot moves along a line, an observation
  holds the position it was taken at and the goodness a registration against it will
  report (a negative one stands for an observation that cannot be converted to points),
  a pose is a displacement, the arithmetic is exact, the ICP finds the true
  displacement, the graph library places the nodes by following the edges from the
  root, and the back-end numbers the keyframes 1, 2, 3, ... and accepts every factor.
\<close>

fun line_propagate_edge ::
  "(TNodeID \<times> TNodeID) \<times> real \<Rightarrow> (TNodeID, real) std_map \<Rightarrow> (TNodeID, real) std_map" where
  "line_propagate_edge ((a, b), p) nds =
     (case (map_of nds a, map_of nds b) of
        (Some pa, None) \<Rightarrow> map_assign b (pa + p) nds
      | (None, Some pb) \<Rightarrow> map_assign a (pb - p) nds
      | _ \<Rightarrow> nds)"

fun line_sweeps ::
  "'a list \<Rightarrow> ((TNodeID \<times> TNodeID) \<times> real) list \<Rightarrow> (TNodeID, real) std_map
     \<Rightarrow> (TNodeID, real) std_map" where
  "line_sweeps [] es nds = nds"
| "line_sweeps (x # fuel) es nds = line_sweeps fuel es (fold line_propagate_edge es nds)"

definition line_externals :: "(real \<times> real, real \<times> real, real) externals" where
  "line_externals =
     \<lparr>round_to_double = Finite,
      timeDifference = (\<lambda>a b. Finite (of_int (b - a))),
      insertObservationPtr = (\<lambda>ob. (0 \<le> snd (content ob), content ob)),
      pc_size = (\<lambda>pc. 100),
      Align3DPDF = (\<lambda>opts f t guess. Inr (fst t - fst f, Finite (snd t))),
      CPose3D = (\<lambda>tp. case tpose_x tp of Finite r \<Rightarrow> r | _ \<Rightarrow> 0),
      asTPose = (\<lambda>r. TPose3D (Finite r) (Finite 0) (Finite 0) (Finite 0) (Finite 0) (Finite 0)),
      pose_Identity = 0,
      pose_compose = (\<lambda>a b. a + b),
      pose_inverse_compose = (\<lambda>a b. a - b),
      pose_norm = (\<lambda>r. Finite \<bar>r\<bar>),
      dijkstra_nodes_estimate =
        (\<lambda>g. Inr (g\<lparr>nodes := line_sweeps (edges g) (edges g) (nodes g)\<rparr>)),
      addKeyFrame = (\<lambda>hist req.
        ProposeKF_Output True (Some (of_nat (length (filter is_AddKeyFrame hist)) + 1))),
      addFactor = (\<lambda>hist req. AddFactor_Output True (Some (of_nat (length hist)))),
      INVALID_ID = - 1,
      INVALID_FID = - 1\<rparr>"

text \<open>The same world with a back-end that rejects every factor.\<close>

definition rejecting_externals :: "(real \<times> real, real \<times> real, real) externals" where
  "rejecting_externals =
     line_externals\<lparr>addFactor := (\<lambda>hist req. AddFactor_Output False None)\<rparr>"

text \<open>The same world with a back-end that numbers the keyframes 100, 99, 98, ...\<close>

definition descending_externals :: "(real \<times> real, real \<times> real, real) externals" where
  "descending_externals =
     line_externals\<lparr>addKeyFrame := (\<lambda>hist req.
        ProposeKF_Output True (Some (100 - of_nat (length (filter is_AddKeyFrame hist)))))\<rparr>"

text \<open>The parameters of the end-to-end scenarios of the specification.\<close>

definition demo_params :: Parameters where
  "demo_params =
     \<lparr>min_dist_xyz_between_keyframes = Finite 1,
      min_time_between_scans = Finite 0,
      min_icp_goodness = Finite 0.5,
      decimate_to_point_count = 0,
      max_KFs_local_graph = 5,
      mrpt_icp = \<lparr>maxIterations = 50, skip_cov_calculation = False,
                  thresholdDist = Finite 1.25, thresholdAng = Finite 0.0175,
                  ALFA = Finite 0.01, corresponding_points_decimation = 5\<rparr>,
      debug_save_all_icp_results = False\<rparr>"

text \<open>The front-end before the first observation.\<close>

definition demo_state :: "(real \<times> real, real \<times> real, real) MethodState" where
  "demo_state =
     \<lparr>last_obs = None, last_obs_tim = 0, last_points = None,
      last_iter_twist = \<lparr>vx = Finite 0, vy = Finite 0, vz = Finite 0,
                         wx = Finite 0, wy = Finite 0, wz = Finite 0\<rparr>,
      accum_since_last_kf = 0, last_kf = INVALID_ID line_externals,
      local_pose_graph = \<lparr>root = 0, nodes = [], edges = []\<rparr>,
      local_pcs = [], checked_KF_pairs = {}\<rparr>"

definition demo_frontend :: "(real \<times> real, real \<times> real, real) LidarICP" where
  "demo_frontend =
     \<lparr>params = demo_params, state = demo_state, raw_sensor_label = ''lidar'',
      worldmodel = None, worker_pool = [], worker_pool_past_KFs = [],
      slam_backend = [], logged = [], throttle_last = None\<rparr>"

text \<open>A scan taken at time \<open>t\<close> and position \<open>pos\<close>, of goodness \<open>q\<close>.\<close>

definition scan :: "time_point \<Rightarrow> real \<Rightarrow> real \<Rightarrow> (real \<times> real) CObservation" where
  "scan t pos q = \<lparr>sensorLabel = ''lidar'', timestamp = t, content = (pos, q)\<rparr>"

text \<open>The driver delivers a scan and the odometry worker processes it at once.\<close>

definition drive :: "(real \<times> real) CObservation \<Rightarrow> (real \<times> real) event list" where
  "drive ob = [SensorDriver 0 (Some ob), OdometryWorker]"

text \<open>The front-end after a first scan at time 1 and position 0.\<close>

definition after_first_scan :: "(real \<times> real, real \<times> real, real) LidarICP" where
  "after_first_scan =
     demo_frontend\<lparr>state := demo_state\<lparr>last_obs := Some (scan 1 0 0.9),
       last_obs_tim := 1, last_points := Some (0, 0.9)\<rparr>\<rparr>"

text \<open>The front-end with two tasks pending on the odometry pool.\<close>

definition busy_frontend :: "(real \<times> real, real \<times> real, real) LidarICP" where
  "busy_frontend =
     after_first_scan\<lparr>worker_pool := [Some (scan 2 0.1 0.9), Some (scan 3 0.2 0.9)]\<rparr>"

text \<open>The front-end before the first observation, with a local graph of at most 2 nodes.\<close>

definition small_frontend :: "(real \<times> real, real \<times> real, real) LidarICP" where
  "small_frontend = demo_frontend\<lparr>params := demo_params\<lparr>max_KFs_local_graph := 2\<rparr>\<rparr>"

text \<open>The front-end after a second scan at position 1.2, which made keyframe 1.\<close>

definition first_keyframe :: "(real \<times> real, real \<times> real, real) LidarICP" where
  "first_keyframe =
     after_first_scan\<lparr>state := (state after_first_scan)\<lparr>
         last_obs := Some (scan 2 1.2 0.9), last_obs_tim := 2, last_points := Some (1.2, 0.9),
         last_iter_twist := (last_iter_twist demo_state)\<lparr>vx := Finite 1.2\<rparr>,
         last_kf := 1, local_pcs := [(1, Some (1.2, 0.9))]\<rparr>,
       slam_backend := [AddKeyFrame 2 [scan 2 1.2 0.9]],
       logged := [(LVL_INFO, ''New KF'')]\<rparr>"

text \<open>
  Two probes from keyframe 5 to keyframe 3 with the guess 2: one whose registration
  moves the guess by 35 percent, one whose registration moves it by about 10 percent.
\<close>

definition far_probe :: "(real \<times> real) DataForCheckEdges" where
  "far_probe = \<lparr>to_id = 3, from_id = 5, to_pc = Some (2.7035, 0.9), from_pc = Some (0, 0.9),
     init_guess_to_wrt_from =
       TPose3D (Finite 2) (Finite 0) (Finite 0) (Finite 0) (Finite 0) (Finite 0)\<rparr>"

definition close_probe :: "(real \<times> real) DataForCheckEdges" where
  "close_probe = far_probe\<lparr>to_pc := Some (2.2, 0.9)\<rparr>"

text \<open>A world model in which keyframe 5 is a neighbour of keyframe 3.\<close>

definition demo_neighbors :: "TNodeID \<Rightarrow> TNodeID set" where
  "demo_neighbors n = (if n = 3 then {5} else {})"

text \<open>
  The front-end after scans at the positions 0, 1.2, 2.4, 3.6 and 4.8 (four keyframes,
  one probe sent), and at line 269 of the task of a sixth scan at position 6, which
  made keyframe 5.
\<close>

definition probe_4_2 :: "(real \<times> real) DataForCheckEdges" where
  "probe_4_2 = \<lparr>to_id = 2, from_id = 4, to_pc = Some (2.4, 0.9), from_pc = Some (4.8, 0.9),
     init_guess_to_wrt_from =
       TPose3D (Finite 2.4) (Finite 0) (Finite 0) (Finite 0) (Finite 0) (Finite 0)\<rparr>"

definition probe_5_3 :: "(real \<times> real) DataForCheckEdges" where
  "probe_5_3 = \<lparr>to_id = 3, from_id = 5, to_pc = Some (3.6, 0.9), from_pc = Some (6, 0.9),
     init_guess_to_wrt_from =
       TPose3D (Finite 2.4) (Finite 0) (Finite 0) (Finite 0) (Finite 0) (Finite 0)\<rparr>"

definition step_factor :: "TNodeID \<Rightarrow> TNodeID \<Rightarrow> (real \<times> real) backend_request" where
  "step_factor a b = AddFactor a b
     (TPose3D (Finite 1.2) (Finite 0) (Finite 0) (Finite 0) (Finite 0) (Finite 0))"

definition four_keyframes :: "(real \<times> real, real \<times> real, real) LidarICP" where
  "four_keyframes =
     demo_frontend\<lparr>
       state := \<lparr>last_obs = Some (scan 5 4.8 0.9), last_obs_tim = 5,
         last_points = Some (4.8, 0.9),
         last_iter_twist = (last_iter_twist demo_state)\<lparr>vx := Finite 1.2\<rparr>,
         accum_since_last_kf = 0, last_kf = 4,
         local_pose_graph = \<lparr>root = 4, nodes = [(1, 3.6), (2, 2.4), (3, 1.2), (4, 0)],
           edges = [((2, 1), 1.2), ((3, 2), 1.2), ((4, 3), 1.2)]\<rparr>,
         local_pcs = [(1, Some (1.2, 0.9)), (2, Some (2.4, 0.9)), (3, Some (3.6, 0.9)),
           (4, Some (4.8, 0.9))],
         checked_KF_pairs = {(2, 4)}\<rparr>,
       worldmodel := Some demo_neighbors,
       worker_pool_past_KFs := [probe_4_2],
       slam_backend := [AddKeyFrame 2 [scan 2 1.2 0.9], AddKeyFrame 3 [scan 3 2.4 0.9],
         step_factor 1 2, AddKeyFrame 4 [scan 4 3.6 0.9], step_factor 2 3,
         AddKeyFrame 5 [scan 5 4.8 0.9], step_factor 3 4],
       logged := [(LVL_INFO, ''New KF''), (LVL_INFO, ''New KF''), (LVL_INFO, ''New KF''),
         (LVL_INFO, ''New KF'')]\<rparr>"

definition five_keyframes :: "(real \<times> real, real \<times> real, real) LidarICP" where
  "five_keyframes =
     four_keyframes\<lparr>
       state := (state four_keyframes)\<lparr>last_obs := Some (scan 6 6 0.9), last_obs_tim := 6,
         last_points := Some (6, 0.9), last_kf := 5,
         local_pose_graph := (local_pose_graph (state four_keyframes))\<lparr>
           edges := [((2, 1), 1.2), ((3, 2), 1.2), ((4, 3), 1.2), ((5, 4), 1.2)]\<rparr>,
         local_pcs := [(1, Some (1.2, 0.9)), (2, Some (2.4, 0.9)), (3, Some (3.6, 0.9)),
           (4, Some (4.8, 0.9)), (5, Some (6, 0.9))]\<rparr>,
       slam_backend := slam_backend four_keyframes
         @ [AddKeyFrame 6 [scan 6 6 0.9], step_factor 4 5],
       logged := logged four_keyframes @ [(LVL_INFO, ''New KF'')]\<rparr>"

text \<open>
  The front-end with a local graph of at most 2 nodes after scans at the positions 0,
  1.2 and 2.4: two keyframes.
\<close>

definition two_keyframes :: "(real \<times> real, real \<times> real, real) LidarICP" where
  "two_keyframes =
     small_frontend\<lparr>
       state := \<lparr>last_obs = Some (scan 3 2.4 0.9), last_obs_tim = 3,
         last_points = Some (2.4, 0.9),
         last_iter_twist = (last_iter_twist demo_state)\<lparr>vx := Finite 1.2\<rparr>,
         accum_since_last_kf = 0, last_kf = 2,
         local_pose_graph = \<lparr>root = 2, nodes = [(1, 1.2), (2, 0)],
           edges = [((2, 1), 1.2)]\<rparr>,
         local_pcs = [(1, Some (1.2, 0.9)), (2, Some (2.4, 0.9))],
         checked_KF_pairs = {}\<rparr>,
       slam_backend := [AddKeyFrame 2 [scan 2 1.2 0.9], AddKeyFrame 3 [scan 3 2.4 0.9],
         step_factor 1 2],
       logged := [(LVL_INFO, ''New KF''), (LVL_INFO, ''New KF'')]\<rparr>"

text \<open>
  Two graphs as the graph library leaves them, rooted at keyframe 4: one where
  keyframes 1 and 2 are at the same distance 2.4 from the root, one where keyframes 1, 2
  and 3 are all at the distance 1.2.
\<close>

definition tied_graph :: "real LocalPoseGraph" where
  "tied_graph = \<lparr>root = 4, nodes = [(1, 2.4), (2, - 2.4), (3, 1.2), (4, 0)],
     edges = [((2, 1), 4.8), ((3, 2), - 3.6), ((4, 3), 1.2)]\<rparr>"

definition returning_graph :: "real LocalPoseGraph" where
  "returning_graph = \<lparr>root = 4, nodes = [(1, 1.2), (2, - 1.2), (3, 1.2), (4, 0)],
     edges = [((2, 1), 2.4), ((3, 2), - 2.4), ((4, 3), 1.2)]\<rparr>"

definition four_clouds :: "(TNodeID, (real \<times> real) option) std_map" where
  "four_clouds = [(1, Some (1, 0.9)), (2, Some (2, 0.9)), (3, Some (3, 0.9)), (4, Some (4, 0.9))]"

section \<open>Properties\<close>

subsection \<open>Unfolding the model on concrete inputs\<close>

lemmas frontend_defs =
  onNewObservation_def MRPT_LOG_THROTTLE_WARN_def log_line_def catch_and_log_def
  run_one_icp_def insertEdgeAtEnd_def factor_accepted_def correction_percent_def
  probe_accepts_def doCheckForNonAdjacentKFs_body_def doCheckForNonAdjacentKFs_def
  and_then_def KF_distances_of_def getAdjacencyMatrix_def edges_erase_def erase_incident_def
  ids_adjacent_def pair_ids_of_def edge_already_exists_flag_def dispatch_probe_def
  probe_median_def checkForNearbyKFs_def should_create_KF_def add_odometry_factor_def
  create_new_KF_def velocity_model_guess_def velocity_model_update_def
  time_since_last_scan_def register_and_create_KF_def register_scan_def
  too_close_in_time_def doProcessNewObservation_body_def doProcessNewObservation_def
  run_event_def pool_at_start_def final_object_def map_erase_def map_subscript_def
  dgreater_def signed_inf_def time_point_default_def Let_def
  evict_loop.simps requests_since_def probe_pair_def connected_ids_def

lemmas demo_defs =
  line_externals_def rejecting_externals_def demo_params_def demo_state_def
  demo_frontend_def scan_def drive_def after_first_scan_def busy_frontend_def
  first_keyframe_def far_probe_def close_probe_def demo_neighbors_def probe_4_2_def
  probe_5_3_def step_factor_def four_keyframes_def five_keyframes_def tied_graph_def
  returning_graph_def four_clouds_def small_frontend_def descending_externals_def
  two_keyframes_def

subsection \<open>Load shedding at the ingress\<close>

text \<open>
  Claim C8. An observation that carries the configured sensor label and arrives while
  the odometry pool reports more than one pending task is dropped:
  \<open>onNewObservation\<close> returns, no task is enqueued, the front-end state (so
  \<open>last_obs_tim\<close> too), the probe pool and the back-end are as before. The only thing
  that may happen is the drop warning, and it is logged only when no throttled warning
  was logged before or the last one is more than 5 seconds old.
\<close>

theorem onNewObservation_load_shed:
  assumes "sensorLabel ob = raw_sensor_label this"
    and "length (worker_pool this) > 1"
  shows "\<exists>this'. onNewObservation now (Some ob) this = Returns this'
           \<and> worker_pool this' = worker_pool this
           \<and> state this' = state this
           \<and> last_obs_tim (state this') = last_obs_tim (state this)
           \<and> worker_pool_past_KFs this' = worker_pool_past_KFs this
           \<and> slam_backend this' = slam_backend this
           \<and> (logged this' = logged this \<and> throttle_last this' = throttle_last this
              \<or> logged this' = logged this
                   @ [(LVL_WARN, ''Dropping observation due to worker threads too busy.'')]
                \<and> throttle_last this' = Some now
                \<and> (\<forall>t. throttle_last this = Some t \<longrightarrow> 5 < now - t))"
  using assms
  by (simp add: onNewObservation_def MRPT_LOG_THROTTLE_WARN_def log_line_def
      split: option.splits)

theorem onNewObservation_load_shed_witness:
  "sensorLabel (scan 4 0.3 0.9) = raw_sensor_label busy_frontend
   \<and> length (worker_pool busy_frontend) > 1
   \<and> onNewObservation 10 (Some (scan 4 0.3 0.9)) busy_frontend
       = Returns (busy_frontend\<lparr>
           logged := [(LVL_WARN, ''Dropping observation due to worker threads too busy.'')],
           throttle_last := Some 10\<rparr>)
   \<and> onNewObservation 12 (Some (scan 4 0.3 0.9)) (busy_frontend\<lparr>throttle_last := Some 10\<rparr>)
       = Returns (busy_frontend\<lparr>throttle_last := Some 10\<rparr>)"
  using onNewObservation_load_shed [of "scan 4 0.3 0.9" busy_frontend 10]
  by (simp add: frontend_defs demo_defs)

subsection \<open>Sequencing and the exception handler\<close>

lemma and_then_Returns [simp]: "and_then (Returns s) f = f s"
  by (simp add: and_then_def)

lemma and_then_Throws [simp]: "and_then (Throws e s) f = Throws e s"
  by (simp add: and_then_def)

lemma and_then_Undefined [simp]: "and_then Undefined f = Undefined"
  by (simp add: and_then_def)

text \<open>A task never throws: what its body throws is logged.\<close>

lemma catch_and_log_final:
  "final_object (catch_and_log r) = Some this' \<Longrightarrow> catch_and_log r = Returns this'"
  by (cases r) (auto simp: catch_and_log_def final_object_def)

lemma catch_and_log_probes:
  assumes "catch_and_log r = Returns this''"
  shows "\<exists>this'. final_object r = Some this' \<and> probes_unchanged this' this''"
  using assms
  by (cases r) (auto simp: catch_and_log_def final_object_def probes_unchanged_def log_line_def)

subsection \<open>The creation of a keyframe\<close>

text \<open>
  Creating a keyframe never runs into undefined behaviour, and whether it returns or
  an assertion throws, it leaves the twist, the probe pool and the checked pairs alone.
\<close>

lemma create_new_KF_defined:
  "\<exists>this'. final_object (create_new_KF ext ob pts this) = Some this'"
  by (simp add: create_new_KF_def add_odometry_factor_def final_object_def
      log_line_def Let_def split: ProposeKF_Output.splits option.splits)

lemma add_odometry_factor_frame:
  assumes "final_object (add_odometry_factor ext new_id this) = Some this'"
  shows "promotion_frame this this'"
  using assms
  by (simp add: add_odometry_factor_def final_object_def promotion_frame_def Let_def
      split: if_splits) auto

lemma create_new_KF_frame:
  assumes "final_object (create_new_KF ext ob pts this) = Some this'"
  shows "promotion_frame this this'"
proof -
  let ?kf = "AddKeyFrame (timestamp ob) [ob]"
  let ?this1 = "this\<lparr>slam_backend := slam_backend this @ [?kf]\<rparr>"
  obtain ok new_kf_id where out: "addKeyFrame ext (slam_backend this) ?kf
      = ProposeKF_Output ok new_kf_id"
    by (cases "addKeyFrame ext (slam_backend this) ?kf") auto
  consider (rejected) "\<not> ok" | (no_id) "ok" "new_kf_id = None"
    | (invalid) "ok" "new_kf_id = Some (INVALID_ID ext)"
    | (accepted) new_id where "ok" "new_kf_id = Some new_id" "new_id \<noteq> INVALID_ID ext"
    by (cases new_kf_id) auto
  then show ?thesis
  proof cases
    case rejected
    with assms out have "this' = ?this1"
      by (simp add: create_new_KF_def final_object_def Let_def)
    then show ?thesis by (simp add: promotion_frame_def)
  next
    case no_id
    with assms out have "this' = ?this1"
      by (simp add: create_new_KF_def final_object_def Let_def)
    then show ?thesis by (simp add: promotion_frame_def)
  next
    case invalid
    with assms out have "this' = ?this1"
      by (simp add: create_new_KF_def final_object_def Let_def)
    then show ?thesis by (simp add: promotion_frame_def)
  next
    case accepted
    let ?this2 = "?this1\<lparr>state := (state ?this1)\<lparr>local_pcs :=
                    map_assign new_id (Some pts) (local_pcs (state ?this1))\<rparr>\<rparr>"
    have step: "create_new_KF ext ob pts this =
        and_then (add_odometry_factor ext new_id ?this2)
          (\<lambda>this2. Returns ((log_line LVL_INFO ''New KF'' this2)\<lparr>state := (state this2)
                      \<lparr>accum_since_last_kf := pose_Identity ext, last_kf := new_id\<rparr>\<rparr>))"
      using out accepted by (simp add: create_new_KF_def Let_def)
    show ?thesis
    proof (cases "add_odometry_factor ext new_id ?this2")
      case (Returns this3)
      then have "promotion_frame ?this2 this3"
        using add_odometry_factor_frame [of ext new_id ?this2 this3]
        by (simp add: final_object_def)
      moreover from assms step Returns have
        "this' = (log_line LVL_INFO ''New KF'' this3)\<lparr>state := (state this3)
                      \<lparr>accum_since_last_kf := pose_Identity ext, last_kf := new_id\<rparr>\<rparr>"
        by (simp add: final_object_def)
      ultimately show ?thesis by (simp add: promotion_frame_def log_line_def)
    next
      case (Throws e this3)
      then have "promotion_frame ?this2 this3"
        using add_odometry_factor_frame [of ext new_id ?this2 this3]
        by (simp add: final_object_def)
      moreover from assms step Throws have "this' = this3"
        by (simp add: final_object_def)
      ultimately show ?thesis by (simp add: promotion_frame_def)
    next
      case Undefined
      with assms step show ?thesis by (simp add: final_object_def)
    qed
  qed
qed

text \<open>
  Claim C3. For a registered scan pair (the ICP returned \<open>rel_pose\<close> and the goodness
  \<open>g\<close>), lines 154 to 264 ask the back-end for a new keyframe if and only if
  \<open>g > min_icp_goodness\<close> and the norm of the accumulated pose, \<open>rel_pose\<close>
  included, exceeds \<open>min_dist_xyz_between_keyframes\<close>. When the keyframe is due and
  the step returns (no assertion failed), \<open>accum_since_last_kf\<close> is the identity and
  \<open>last_kf\<close> is the valid id the back-end answered with; and the step does return
  when the back-end answers with a valid id and accepts the factor between the
  keyframes.
\<close>

theorem keyframe_promotion_policy:
  fixes ext :: "('o, 'pc, 'pose) externals" and this :: "('o, 'pc, 'pose) LidarICP"
    and ob pts prev_obs_tim prev_points rel_pose g
  defines "r \<equiv> register_and_create_KF ext ob pts prev_obs_tim prev_points this"
    and "accum \<equiv> pose_compose ext (accum_since_last_kf (state this)) rel_pose"
    and "kf \<equiv> AddKeyFrame (timestamp ob) [ob]"
  defines "promote \<equiv> dgreater g (min_icp_goodness (params this))
              \<and> dgreater (pose_norm ext accum) (min_dist_xyz_between_keyframes (params this))"
  assumes icp: "run_one_icp ext (params this) prev_points pts
             (velocity_model_guess ext (last_iter_twist (state this))
                (time_since_last_scan ext prev_obs_tim (timestamp ob))) = Inr (rel_pose, g)"
  shows "(\<exists>this'. final_object r = Some this'
            \<and> ((\<exists>q \<in> set (requests_since this this'). is_AddKeyFrame q) \<longleftrightarrow> promote)
            \<and> (kf \<in> set (requests_since this this') \<longleftrightarrow> promote))
      \<and> (\<forall>this'. promote \<and> r = Returns this' \<longrightarrow>
            accum_since_last_kf (state this') = pose_Identity ext
            \<and> last_kf (state this') \<noteq> INVALID_ID ext
            \<and> addKeyFrame ext (slam_backend this) kf
                = ProposeKF_Output True (Some (last_kf (state this'))))
      \<and> (\<forall>new_id. promote
            \<and> addKeyFrame ext (slam_backend this) kf = ProposeKF_Output True (Some new_id)
            \<and> new_id \<noteq> INVALID_ID ext
            \<and> (last_kf (state this) \<noteq> INVALID_ID ext \<longrightarrow>
                 factor_accepted ext (addFactor ext (slam_backend this @ [kf])
                   (AddFactor (last_kf (state this)) new_id (asTPose ext accum))))
            \<longrightarrow> (\<exists>this'. r = Returns this' \<and> last_kf (state this') = new_id))"
proof (intro conjI)
  show "\<exists>this'. final_object r = Some this'
            \<and> ((\<exists>q \<in> set (requests_since this this'). is_AddKeyFrame q) \<longleftrightarrow> promote)
            \<and> (kf \<in> set (requests_since this this') \<longleftrightarrow> promote)"
    using icp unfolding r_def promote_def accum_def kf_def
    by (simp add: register_and_create_KF_def should_create_KF_def create_new_KF_def
        add_odometry_factor_def final_object_def requests_since_def log_line_def Let_def
        split: ProposeKF_Output.splits option.splits)
next
  show "\<forall>this'. promote \<and> r = Returns this' \<longrightarrow>
            accum_since_last_kf (state this') = pose_Identity ext
            \<and> last_kf (state this') \<noteq> INVALID_ID ext
            \<and> addKeyFrame ext (slam_backend this) kf
                = ProposeKF_Output True (Some (last_kf (state this')))"
    using icp unfolding r_def promote_def accum_def kf_def
    by (auto simp add: register_and_create_KF_def should_create_KF_def create_new_KF_def
        add_odometry_factor_def log_line_def Let_def
        split: ProposeKF_Output.splits option.splits if_splits)
next
  show "\<forall>new_id. promote
            \<and> addKeyFrame ext (slam_backend this) kf = ProposeKF_Output True (Some new_id)
            \<and> new_id \<noteq> INVALID_ID ext
            \<and> (last_kf (state this) \<noteq> INVALID_ID ext \<longrightarrow>
                 factor_accepted ext (addFactor ext (slam_backend this @ [kf])
                   (AddFactor (last_kf (state this)) new_id (asTPose ext accum))))
            \<longrightarrow> (\<exists>this'. r = Returns this' \<and> last_kf (state this') = new_id)"
    using icp unfolding r_def promote_def accum_def kf_def
    by (simp add: register_and_create_KF_def should_create_KF_def create_new_KF_def
        add_odometry_factor_def factor_accepted_def log_line_def Let_def)
qed

text \<open>
  The second scan of the line world, 1.2 m after the first and of goodness 0.9: the
  keyframe is requested, it is keyframe 1, and the accumulated pose is reset.
\<close>

theorem keyframe_promotion_policy_witness:
  "run_one_icp line_externals (params after_first_scan) (0, 0.9) (1.2, 0.9)
     (velocity_model_guess line_externals (last_iter_twist (state after_first_scan))
        (time_since_last_scan line_externals 1 (timestamp (scan 2 1.2 0.9))))
     = Inr (1.2, Finite 0.9)
   \<and> dgreater (Finite 0.9) (min_icp_goodness (params after_first_scan))
   \<and> dgreater (pose_norm line_externals 1.2)
        (min_dist_xyz_between_keyframes (params after_first_scan))
   \<and> (\<exists>this'. register_and_create_KF line_externals (scan 2 1.2 0.9) (1.2, 0.9) 1 (0, 0.9)
                  after_first_scan = Returns this'
         \<and> requests_since after_first_scan this' = [AddKeyFrame 2 [scan 2 1.2 0.9]]
         \<and> accum_since_last_kf (state this') = pose_Identity line_externals
         \<and> last_kf (state this') = 1)"
  using keyframe_promotion_policy [where ext = line_externals and this = after_first_scan
      and ob = "scan 2 1.2 0.9" and pts = "(1.2, 0.9)" and prev_obs_tim = 1
      and prev_points = "(0, 0.9)" and rel_pose = "1.2" and g = "Finite 0.9"]
  by (simp add: frontend_defs demo_defs)

subsection \<open>A keyframe whose factor the back-end rejects\<close>

text \<open>
  Claim C10. When the keyframe is due, the back-end answers \<open>addKeyFrame\<close> with
  success and a valid id, there is a last keyframe, and the back-end then rejects the
  factor (no success, or no valid factor id), the task ends in the exception handler
  with the promotion half applied: the new cloud is in \<open>local_pcs\<close> under the new id,
  \<open>accum_since_last_kf\<close> is the accumulated pose and not the identity it would be
  reset to, \<open>last_kf\<close> and the local graph are as before, the back-end has received
  the keyframe and the factor, and the exception is logged.
\<close>

theorem promotion_not_atomic:
  fixes ext :: "('o, 'pc, 'pose) externals" and this :: "('o, 'pc, 'pose) LidarICP"
    and ob pts lp rel_pose g new_id
  defines "accum \<equiv> pose_compose ext (accum_since_last_kf (state this)) rel_pose"
    and "kf \<equiv> AddKeyFrame (timestamp ob) [ob]"
  defines "f \<equiv> AddFactor (last_kf (state this)) new_id (asTPose ext accum)"
  assumes gap: "\<not> too_close_in_time ext this ob"
    and conv: "insertObservationPtr ext ob = (True, pts)"
    and prev: "last_points (state this) = Some lp"
    and icp: "run_one_icp ext (params this) lp pts
                (velocity_model_guess ext (last_iter_twist (state this))
                   (time_since_last_scan ext (last_obs_tim (state this)) (timestamp ob)))
              = Inr (rel_pose, g)"
    and promote: "should_create_KF (params this) g (pose_norm ext accum)"
    and kf_ok: "addKeyFrame ext (slam_backend this) kf = ProposeKF_Output True (Some new_id)"
               "new_id \<noteq> INVALID_ID ext"
    and has_last: "last_kf (state this) \<noteq> INVALID_ID ext"
    and rejected: "\<not> factor_accepted ext (addFactor ext (slam_backend this @ [kf]) f)"
  shows "\<exists>this' e. doProcessNewObservation ext (Some ob) this = Returns this'
       \<and> local_pcs (state this') = map_assign new_id (Some pts) (local_pcs (state this))
       \<and> accum_since_last_kf (state this') = accum
       \<and> last_kf (state this') = last_kf (state this)
       \<and> local_pose_graph (state this') = local_pose_graph (state this)
       \<and> slam_backend this' = slam_backend this @ [kf, f]
       \<and> logged this' = logged this @ [(LVL_ERROR, e)]"
  using assms(4-) unfolding accum_def kf_def f_def
  by (simp add: doProcessNewObservation_def doProcessNewObservation_body_def
      register_scan_def register_and_create_KF_def create_new_KF_def
      add_odometry_factor_def catch_and_log_def log_line_def factor_accepted_def Let_def)

text \<open>The third scan of the line world, with a back-end that rejects every factor.\<close>

theorem promotion_not_atomic_witness:
  "\<not> too_close_in_time rejecting_externals first_keyframe (scan 3 2.4 0.9)
   \<and> insertObservationPtr rejecting_externals (scan 3 2.4 0.9) = (True, (2.4, 0.9))
   \<and> last_points (state first_keyframe) = Some (1.2, 0.9)
   \<and> should_create_KF (params first_keyframe) (Finite 0.9) (Finite 1.2)
   \<and> addKeyFrame rejecting_externals (slam_backend first_keyframe)
        (AddKeyFrame 3 [scan 3 2.4 0.9]) = ProposeKF_Output True (Some 2)
   \<and> last_kf (state first_keyframe) = 1
   \<and> doProcessNewObservation rejecting_externals (Some (scan 3 2.4 0.9)) first_keyframe
       = Returns (first_keyframe\<lparr>state := (state first_keyframe)\<lparr>
           last_obs := Some (scan 3 2.4 0.9), last_obs_tim := 3,
           last_points := Some (2.4, 0.9),
           accum_since_last_kf := 1.2,
           local_pcs := [(1, Some (1.2, 0.9)), (2, Some (2.4, 0.9))]\<rparr>,
         slam_backend := [AddKeyFrame 2 [scan 2 1.2 0.9], AddKeyFrame 3 [scan 3 2.4 0.9],
           AddFactor 1 2
             (TPose3D (Finite 1.2) (Finite 0) (Finite 0) (Finite 0) (Finite 0) (Finite 0))],
         logged := [(LVL_INFO, ''New KF''),
           (LVL_ERROR, ''Exception: Assert condition failed: factor_out.success'')]\<rparr>)"
  using promotion_not_atomic [where ext = rejecting_externals and this = first_keyframe
      and ob = "scan 3 2.4 0.9" and pts = "(2.4, 0.9)" and lp = "(1.2, 0.9)"
      and rel_pose = "1.2" and g = "Finite 0.9" and new_id = 2]
  by (simp add: frontend_defs demo_defs)

subsection \<open>The velocity model at a time difference of zero\<close>

lemma ddiv_by_zero_not_finite: "\<not> is_finite (ddiv rnd a (Finite 0))"
  by (cases a) (simp_all add: signed_inf_def)

lemma dmul_finite_zero: "is_finite a \<Longrightarrow> dmul rnd a (Finite 0) = Finite 0"
  by (cases a) simp_all

text \<open>
  Claim C9. Let \<open>min_time_between_scans\<close> be 0, let an observation carry the
  timestamp of the last accepted one, let the library give 0 for the time difference of
  a time to itself, and let the stored twist be finite. Then the time filter accepts the observation,
  \<open>dt\<close> is 0, the initial guess is the identity pose, and once the ICP has returned,
  whatever the keyframe step then does, the stored \<open>vx\<close>, \<open>vy\<close> and \<open>vz\<close> are
  not finite: each is the quotient of a coordinate by zero, since nothing guards the
  division.
\<close>

theorem twist_division_by_zero:
  fixes ext :: "('o, 'pc, 'pose) externals" and this :: "('o, 'pc, 'pose) LidarICP"
    and ob pts lp rel_pose g
  defines "this1 \<equiv> this\<lparr>state := (state this)\<lparr>last_obs := Some ob,
              last_obs_tim := timestamp ob, last_points := Some pts\<rparr>\<rparr>"
    and "dt \<equiv> time_since_last_scan ext (last_obs_tim (state this)) (timestamp ob)"
    and "identity_guess \<equiv>
           TPose3D (Finite 0) (Finite 0) (Finite 0) (Finite 0) (Finite 0) (Finite 0)"
  assumes no_gap: "min_time_between_scans (params this) = Finite 0"
    and same: "timestamp ob = last_obs_tim (state this)"
    and zero_self: "timeDifference ext (timestamp ob) (timestamp ob) = Finite 0"
    and fin: "is_finite (vx (last_iter_twist (state this)))"
             "is_finite (vy (last_iter_twist (state this)))"
             "is_finite (vz (last_iter_twist (state this)))"
    and icp: "run_one_icp ext (params this) lp pts identity_guess = Inr (rel_pose, g)"
  shows "\<not> too_close_in_time ext this ob
       \<and> dt = Finite 0
       \<and> velocity_model_guess ext (last_iter_twist (state this)) dt = identity_guess
       \<and> (\<exists>this'. final_object
                     (register_and_create_KF ext ob pts (last_obs_tim (state this)) lp this1)
                   = Some this'
              \<and> \<not> is_finite (vx (last_iter_twist (state this')))
              \<and> \<not> is_finite (vy (last_iter_twist (state this')))
              \<and> \<not> is_finite (vz (last_iter_twist (state this'))))"
proof -
  have zero: "timeDifference ext (last_obs_tim (state this)) (timestamp ob) = Finite 0"
    using same zero_self by simp
  have accepted: "\<not> too_close_in_time ext this ob"
    using no_gap zero by (simp add: too_close_in_time_def)
  have dt0: "dt = Finite 0"
    using zero by (simp add: dt_def time_since_last_scan_def)
  have guess: "velocity_model_guess ext (last_iter_twist (state this)) dt = identity_guess"
    using fin by (simp add: dt0 velocity_model_guess_def identity_guess_def dmul_finite_zero)
  let ?tw = "velocity_model_update ext (last_iter_twist (state this)) rel_pose (Finite 0)"
  let ?this2 = "this1\<lparr>state := (state this1)\<lparr>last_iter_twist := ?tw,
        accum_since_last_kf := pose_compose ext (accum_since_last_kf (state this1)) rel_pose\<rparr>\<rparr>"
  let ?r = "register_and_create_KF ext ob pts (last_obs_tim (state this)) lp this1"
  have tw: "\<not> is_finite (vx ?tw) \<and> \<not> is_finite (vy ?tw) \<and> \<not> is_finite (vz ?tw)"
    by (simp add: velocity_model_update_def ddiv_by_zero_not_finite)
  have r: "?r = (if should_create_KF (params this) g
                      (pose_norm ext (pose_compose ext (accum_since_last_kf (state this)) rel_pose))
                 then create_new_KF ext ob pts ?this2 else Returns ?this2)"
    using icp guess dt0
    by (simp add: register_and_create_KF_def this1_def dt_def Let_def)
  have "\<exists>this'. final_object ?r = Some this'
          \<and> last_iter_twist (state this') = ?tw"
  proof (cases "should_create_KF (params this) g
                  (pose_norm ext (pose_compose ext (accum_since_last_kf (state this)) rel_pose))")
    case False
    with r show ?thesis by (simp add: final_object_def)
  next
    case True
    with r have eq: "?r = create_new_KF ext ob pts ?this2" by simp
    obtain x where x: "final_object (create_new_KF ext ob pts ?this2) = Some x"
      using create_new_KF_defined [of ext ob pts ?this2] by blast
    from create_new_KF_frame [OF x] have "last_iter_twist (state x) = ?tw"
      by (simp add: promotion_frame_def)
    with x eq show ?thesis by simp
  qed
  with tw accepted dt0 guess show ?thesis by auto
qed

text \<open>
  A second scan with the timestamp of the first, 0.3 m further: the twist becomes
  \<open>(+\<infinity>, NaN, NaN)\<close>.
\<close>

theorem twist_division_by_zero_witness:
  "min_time_between_scans (params after_first_scan) = Finite 0
   \<and> timestamp (scan 1 0.3 0.9) = last_obs_tim (state after_first_scan)
   \<and> timeDifference line_externals (timestamp (scan 1 0.3 0.9))
        (timestamp (scan 1 0.3 0.9)) = Finite 0
   \<and> last_iter_twist (state after_first_scan)
       = \<lparr>vx = Finite 0, vy = Finite 0, vz = Finite 0,
          wx = Finite 0, wy = Finite 0, wz = Finite 0\<rparr>
   \<and> doProcessNewObservation line_externals (Some (scan 1 0.3 0.9)) after_first_scan
       = Returns (after_first_scan\<lparr>state := (state after_first_scan)\<lparr>
           last_obs := Some (scan 1 0.3 0.9), last_points := Some (0.3, 0.9),
           last_iter_twist := \<lparr>vx = PlusInf, vy = NaN, vz = NaN,
                                wx = Finite 0, wy = Finite 0, wz = Finite 0\<rparr>,
           accum_since_last_kf := 0.3\<rparr>\<rparr>)"
  using twist_division_by_zero [where ext = line_externals and this = after_first_scan
      and ob = "scan 1 0.3 0.9" and pts = "(0.3, 0.9)" and lp = "(0, 0.9)"
      and rel_pose = "0.3" and g = "Finite 0.9"]
  by (simp add: frontend_defs demo_defs)

subsection \<open>An observation that cannot be converted\<close>

text \<open>
  When the conversion fails and there is a last cloud, the warning is logged after
  \<open>last_obs\<close>, \<open>last_obs_tim\<close> and \<open>last_points\<close> have been overwritten (lines 134
  to 136 come before the test of line 145).
\<close>

lemma conversion_failure_state:
  assumes "\<not> too_close_in_time ext this ob"
    and "insertObservationPtr ext ob = (False, pts)"
    and "last_points (state this) = Some lp"
  shows "doProcessNewObservation ext (Some ob) this
    = Returns (log_line LVL_WARN
        ''Observation could not be converted into a pointcloud. Doing nothing.''
        (this\<lparr>state := (state this)\<lparr>last_obs := Some ob, last_obs_tim := timestamp ob,
                  last_points := Some pts\<rparr>\<rparr>))"
  using assms
  by (simp add: doProcessNewObservation_def doProcessNewObservation_body_def
      catch_and_log_def Let_def)

text \<open>
  Claim C2, at a failing input. After a first scan at time 1, a scan at time 2 that
  cannot be converted is accepted by the time filter; the task logs the warning "Doing
  nothing" and returns, and \<open>last_obs\<close>, \<open>last_obs_tim\<close> and \<open>last_points\<close> no
  longer have the values they had before the task: they hold the unconverted
  observation, its time 2 and its cloud.
\<close>

theorem conversion_failure_advances_state:
  "\<not> too_close_in_time line_externals after_first_scan (scan 2 1.2 (- 1))
   \<and> insertObservationPtr line_externals (scan 2 1.2 (- 1)) = (False, (1.2, - 1))
   \<and> last_obs (state after_first_scan) = Some (scan 1 0 0.9)
   \<and> last_obs_tim (state after_first_scan) = 1
   \<and> last_points (state after_first_scan) = Some (0, 0.9)
   \<and> doProcessNewObservation line_externals (Some (scan 2 1.2 (- 1))) after_first_scan
       = Returns (after_first_scan\<lparr>
           state := (state after_first_scan)\<lparr>last_obs := Some (scan 2 1.2 (- 1)),
             last_obs_tim := 2, last_points := Some (1.2, - 1)\<rparr>,
           logged := [(LVL_WARN,
             ''Observation could not be converted into a pointcloud. Doing nothing.'')]\<rparr>)"
  using conversion_failure_state [of line_externals after_first_scan "scan 2 1.2 (- 1)"
      "(1.2, - 1)" "(0, 0.9)"]
  by (simp add: frontend_defs demo_defs)

subsection \<open>The probe worker\<close>

text \<open>
  Claim C6, amended. Take a probe task whose registration returns \<open>rel_pose\<close> and the
  goodness \<open>g\<close>, and let the ratio be the norm of \<open>rel_pose - init_guess\<close> divided by
  the norm of \<open>init_guess\<close> plus 0.01, in the arithmetic of doubles: the sum and the
  quotient are rounded, 0.01 and 0.20 are the doubles of these literals. The factor is
  sent to the back-end if and only if \<open>g > min_icp_goodness\<close> and the ratio is below
  0.20; the edge is inserted into the local graph if and only if, in addition, the
  back-end accepts the factor. Nothing else is sent and no other edge is inserted.
\<close>

theorem probe_factor_and_edge:
  fixes ext :: "('o, 'pc, 'pose) externals" and this :: "('o, 'pc, 'pose) LidarICP"
    and d fpc tpc rel_pose g
  defines "rnd \<equiv> round_to_double ext"
    and "init_guess \<equiv> CPose3D ext (init_guess_to_wrt_from d)"
  defines "ratio \<equiv> ddiv rnd (pose_norm ext (pose_inverse_compose ext rel_pose init_guess))
                      (dadd rnd (pose_norm ext init_guess) (rnd 0.01))"
  defines "accept \<equiv> dless (min_icp_goodness (params this)) g \<and> dless ratio (rnd 0.20)"
    and "f \<equiv> AddFactor (from_id d) (to_id d) (asTPose ext rel_pose)"
  assumes "from_pc d = Some fpc" and "to_pc d = Some tpc"
    and "run_one_icp ext (params this) fpc tpc (init_guess_to_wrt_from d) = Inr (rel_pose, g)"
  shows "\<exists>this'. doCheckForNonAdjacentKFs ext d this = Returns this'
    \<and> requests_since this this' = (if accept then [f] else [])
    \<and> edges (local_pose_graph (state this')) =
          (if accept \<and> factor_accepted ext (addFactor ext (slam_backend this) f)
           then edges (local_pose_graph (state this)) @ [((from_id d, to_id d), rel_pose)]
           else edges (local_pose_graph (state this)))"
  using assms(6-) unfolding accept_def f_def ratio_def init_guess_def rnd_def
  by (simp add: doCheckForNonAdjacentKFs_def doCheckForNonAdjacentKFs_body_def
      catch_and_log_def probe_accepts_def correction_percent_def dgreater_def
      requests_since_def factor_accepted_def insertEdgeAtEnd_def log_line_def Let_def)

text \<open>
  A probe of goodness 0.9 and correction ratio 0.35 (the guess is 2, the registration
  finds 2.7035) sends no factor and inserts no edge: the object is as before.
\<close>

theorem probe_factor_and_edge_witness:
  "from_pc far_probe = Some (0, 0.9) \<and> to_pc far_probe = Some (2.7035, 0.9)
   \<and> run_one_icp line_externals (params demo_frontend) (0, 0.9) (2.7035, 0.9)
        (init_guess_to_wrt_from far_probe) = Inr (2.7035, Finite 0.9)
   \<and> dless (min_icp_goodness (params demo_frontend)) (Finite 0.9)
   \<and> ddiv Finite (pose_norm line_externals (pose_inverse_compose line_externals 2.7035 2))
        (dadd Finite (pose_norm line_externals 2) (Finite 0.01)) = Finite 0.35
   \<and> doCheckForNonAdjacentKFs line_externals far_probe demo_frontend = Returns demo_frontend"
  using probe_factor_and_edge [where d = far_probe and fpc = "(0, 0.9)"
      and tpc = "(2.7035, 0.9)" and ext = line_externals and this = demo_frontend
      and rel_pose = "2.7035" and g = "Finite 0.9"]
  by (simp add: frontend_defs demo_defs)

text \<open>
  Claim C6 as stated fails when the back-end rejects the factor: with goodness 0.9 above
  the threshold 0.5 and a correction ratio of 20/201, below 0.20, the factor is sent,
  the assertion on the answer throws, and no edge is inserted.
\<close>

theorem probe_edge_needs_backend_counterexample:
  "dgreater (Finite 0.9) (min_icp_goodness (params demo_frontend))
   \<and> run_one_icp rejecting_externals (params demo_frontend) (0, 0.9) (2.2, 0.9)
        (init_guess_to_wrt_from close_probe) = Inr (2.2, Finite 0.9)
   \<and> correction_percent rejecting_externals (init_guess_to_wrt_from close_probe) 2.2
       = Finite (20 / 201)
   \<and> dless (Finite (20 / 201)) (round_to_double rejecting_externals 0.20)
   \<and> doCheckForNonAdjacentKFs rejecting_externals close_probe demo_frontend
       = Returns (demo_frontend\<lparr>
           slam_backend := [AddFactor 5 3
             (TPose3D (Finite 2.2) (Finite 0) (Finite 0) (Finite 0) (Finite 0) (Finite 0))],
           logged := [(LVL_ERROR, ''Exception: Assert condition failed: factor_out.success'')]\<rparr>)
   \<and> edges (local_pose_graph (state demo_frontend)) = []"
  by (simp add: frontend_defs demo_defs)

subsection \<open>The world model in the check of the nearby keyframes\<close>

text \<open>
  The answer of the world model never changes the flag of line 360: it is consulted
  only while the flag is false, and then \<open>false\<close> is assigned to it.
\<close>

lemma edge_already_exists_flag_eq:
  "edge_already_exists_flag adjacent checked wm kf_id rt
     = (adjacent \<or> pair_ids_of kf_id rt \<in> checked)"
  by (cases wm) (auto simp: edge_already_exists_flag_def Let_def)

text \<open>The two objects of the line world used below are reached by the code.\<close>

lemma four_keyframes_reached:
  "run line_externals
     (drive (scan 1 0 0.9) @ drive (scan 2 1.2 0.9) @ drive (scan 3 2.4 0.9)
      @ drive (scan 4 3.6 0.9) @ drive (scan 5 4.8 0.9))
     (demo_frontend\<lparr>worldmodel := Some demo_neighbors\<rparr>, [])
   = Some (four_keyframes, [probe_4_2])"
  by (simp add: frontend_defs demo_defs)

lemma five_keyframes_reached:
  "register_and_create_KF line_externals (scan 6 6 0.9) (6, 0.9) 5 (4.8, 0.9)
     (four_keyframes\<lparr>state := (state four_keyframes)\<lparr>last_obs := Some (scan 6 6 0.9),
        last_obs_tim := 6, last_points := Some (6, 0.9)\<rparr>\<rparr>)
   = Returns five_keyframes"
  by (simp add: frontend_defs demo_defs)

text \<open>
  Claim C1, at a failing input. Five keyframes on the line, the root is keyframe 5, the
  candidate at the median distance is keyframe 3: the ids are not adjacent, the pair
  (3, 5) is not among the checked pairs, and the world model reports 5 among the
  neighbours of 3. \<open>checkForNearbyKFs\<close> nevertheless puts the probe from 5 to 3 on the
  probe pool and marks the pair as checked.
\<close>

theorem world_model_adjacency_is_probed:
  "worldmodel five_keyframes = Some demo_neighbors
   \<and> 5 \<in> demo_neighbors 3
   \<and> ids_adjacent 3 5 = Some False
   \<and> pair_ids_of 3 5 \<notin> checked_KF_pairs (state five_keyframes)
   \<and> checkForNearbyKFs line_externals five_keyframes
       = Returns (five_keyframes\<lparr>
           state := (state five_keyframes)\<lparr>
             local_pose_graph := (local_pose_graph (state five_keyframes))\<lparr>root := 5,
               nodes := [(1, 4.8), (2, 3.6), (3, 2.4), (4, 1.2), (5, 0)]\<rparr>,
             checked_KF_pairs := {(3, 5), (2, 4)}\<rparr>,
           worker_pool_past_KFs := [probe_4_2, probe_5_3]\<rparr>)"
  by (simp add: frontend_defs demo_defs)

subsection \<open>No pair is probed twice\<close>

lemma dispatch_probe_new:
  "pair_ids_of kf_id (root (local_pose_graph (state this))) \<notin> checked_KF_pairs (state this)
   \<Longrightarrow> one_new_probe this (dispatch_probe ext kf_id this)"
  by (simp add: one_new_probe_def dispatch_probe_def probe_pair_def Let_def
      split: prod.splits)

lemma probe_median_probes:
  assumes "probe_median ext KF this = Returns this'"
  shows "probes_unchanged this this' \<or> one_new_probe this this'"
proof (cases "KF = []")
  case True
  with assms show ?thesis by (simp add: probe_median_def probes_unchanged_def)
next
  case False
  let ?kf = "snd (KF ! (length KF div 2))"
  let ?rt = "root (local_pose_graph (state this))"
  from assms False obtain adjacent where adj: "ids_adjacent ?kf ?rt = Some adjacent"
    by (auto simp: probe_median_def Let_def split: option.splits)
  show ?thesis
  proof (cases "edge_already_exists_flag adjacent (checked_KF_pairs (state this))
                  (worldmodel this) ?kf ?rt")
    case True
    with assms False adj have "this' = this"
      by (simp add: probe_median_def Let_def)
    then show ?thesis by (simp add: probes_unchanged_def)
  next
    case flag: False
    with assms False adj have eq: "this' = dispatch_probe ext ?kf this"
      by (simp add: probe_median_def Let_def)
    from flag have "pair_ids_of ?kf ?rt \<notin> checked_KF_pairs (state this)"
      by (simp add: edge_already_exists_flag_eq)
    then show ?thesis unfolding eq by (blast intro: dispatch_probe_new)
  qed
qed

lemma checkForNearbyKFs_probes:
  assumes "checkForNearbyKFs ext this = Returns this'"
  shows "probes_unchanged this this' \<or> one_new_probe this this'"
proof -
  from assms obtain KF lpg3 pcs3 where
    pm: "probe_median ext KF
           (this\<lparr>state := (state this)\<lparr>local_pose_graph := lpg3, local_pcs := pcs3\<rparr>\<rparr>)
         = Returns this'"
    by (auto simp: checkForNearbyKFs_def Let_def split: sum.splits option.splits)
  from probe_median_probes [OF pm] show ?thesis
    by (simp add: probes_unchanged_def one_new_probe_def)
qed

lemma probe_median_never_throws: "probe_median ext KF this \<noteq> Throws e this'"
  by (simp add: probe_median_def Let_def split: option.splits)

lemma checkForNearbyKFs_throws_probes:
  assumes "checkForNearbyKFs ext this = Throws e this'"
  shows "probes_unchanged this this'"
proof -
  let ?lpg1 = "(local_pose_graph (state this))\<lparr>root := last_kf (state this),
                 nodes := map_assign (last_kf (state this)) (pose_Identity ext) []\<rparr>"
  show ?thesis
  proof (cases "dijkstra_nodes_estimate ext ?lpg1")
    case (Inl e')
    with assms have "this' = this\<lparr>state := (state this)\<lparr>local_pose_graph := ?lpg1\<rparr>\<rparr>"
      by (simp add: checkForNearbyKFs_def Let_def)
    then show ?thesis by (simp add: probes_unchanged_def)
  next
    case (Inr lpg2)
    with assms show ?thesis
      by (simp add: checkForNearbyKFs_def Let_def probe_median_never_throws
          split: option.splits prod.splits)
  qed
qed

lemma promotion_frame_probes:
  "promotion_frame this this' \<Longrightarrow> probes_unchanged this this'"
  by (simp add: promotion_frame_def probes_unchanged_def)

lemma register_and_create_KF_probes:
  assumes "final_object (register_and_create_KF ext ob pts t lp this) = Some this'"
  shows "probes_unchanged this this'"
proof (cases "run_one_icp ext (params this) lp pts
                (velocity_model_guess ext (last_iter_twist (state this))
                   (time_since_last_scan ext t (timestamp ob)))")
  case (Inl e)
  with assms show ?thesis
    by (simp add: register_and_create_KF_def final_object_def probes_unchanged_def Let_def)
next
  case (Inr res)
  obtain rel_pose g where res: "res = (rel_pose, g)" by (cases res)
  let ?this1 = "this\<lparr>state := (state this)\<lparr>last_iter_twist :=
        velocity_model_update ext (last_iter_twist (state this)) rel_pose
          (time_since_last_scan ext t (timestamp ob)),
        accum_since_last_kf := pose_compose ext (accum_since_last_kf (state this)) rel_pose\<rparr>\<rparr>"
  show ?thesis
  proof (cases "should_create_KF (params this) g
                  (pose_norm ext (pose_compose ext (accum_since_last_kf (state this)) rel_pose))")
    case True
    with assms Inr res have "final_object (create_new_KF ext ob pts ?this1) = Some this'"
      by (simp add: register_and_create_KF_def Let_def)
    from promotion_frame_probes [OF create_new_KF_frame [OF this]] show ?thesis
      by (simp add: probes_unchanged_def)
  next
    case False
    with assms Inr res have "this' = ?this1"
      by (simp add: register_and_create_KF_def final_object_def Let_def)
    then show ?thesis by (simp add: probes_unchanged_def)
  qed
qed

lemma probe_step_after_unchanged:
  "probes_unchanged a b \<Longrightarrow> probe_step b c \<Longrightarrow> probe_step a c"
  by (auto simp: probe_step_def probes_unchanged_def one_new_probe_def)

lemma probes_unchanged_trans:
  "probes_unchanged a b \<Longrightarrow> probes_unchanged b c \<Longrightarrow> probes_unchanged a c"
  by (simp add: probes_unchanged_def)

lemma register_scan_probes:
  assumes "final_object (register_scan ext ob pts t lp this) = Some this'"
  shows "probe_step this this'"
proof (cases "register_and_create_KF ext ob pts t lp this")
  case (Returns this2)
  then have u: "probes_unchanged this this2"
    using register_and_create_KF_probes [of ext ob pts t lp this this2]
    by (simp add: final_object_def)
  show ?thesis
  proof (cases "length (local_pcs (state this2)) > 1")
    case False
    with assms Returns have "this' = this2"
      by (simp add: register_scan_def final_object_def)
    with u show ?thesis by (simp add: probe_step_def)
  next
    case True
    with assms Returns have fo: "final_object (checkForNearbyKFs ext this2) = Some this'"
      by (simp add: register_scan_def)
    have "probe_step this2 this'"
    proof (cases "checkForNearbyKFs ext this2")
      case (Returns x)
      with fo have "x = this'" by (simp add: final_object_def)
      with Returns checkForNearbyKFs_probes [of ext this2 this'] show ?thesis
        by (simp add: probe_step_def)
    next
      case (Throws e x)
      with fo have "x = this'" by (simp add: final_object_def)
      with Throws checkForNearbyKFs_throws_probes [of ext this2 e this'] show ?thesis
        by (simp add: probe_step_def)
    next
      case Undefined
      with fo show ?thesis by (simp add: final_object_def)
    qed
    with u show ?thesis by (rule probe_step_after_unchanged)
  qed
next
  case (Throws e this2)
  then have u: "probes_unchanged this this2"
    using register_and_create_KF_probes [of ext ob pts t lp this this2]
    by (simp add: final_object_def)
  from assms Throws have "this' = this2"
    by (simp add: register_scan_def final_object_def)
  with u show ?thesis by (simp add: probe_step_def)
next
  case Undefined
  with assms show ?thesis by (simp add: register_scan_def final_object_def)
qed

lemma doProcessNewObservation_body_probes:
  assumes "final_object (doProcessNewObservation_body ext o_ptr this) = Some this'"
  shows "probe_step this this'"
proof (cases o_ptr)
  case None
  with assms show ?thesis
    by (simp add: doProcessNewObservation_body_def final_object_def probe_step_def
        probes_unchanged_def)
next
  case (Some ob)
  show ?thesis
  proof (cases "too_close_in_time ext this ob")
    case True
    with assms Some show ?thesis
      by (simp add: doProcessNewObservation_body_def final_object_def probe_step_def
          probes_unchanged_def)
  next
    case False
    obtain have_points pts where conv: "insertObservationPtr ext ob = (have_points, pts)"
      by (cases "insertObservationPtr ext ob")
    let ?this1 = "this\<lparr>state := (state this)\<lparr>last_obs := o_ptr,
                     last_obs_tim := timestamp ob, last_points := Some pts\<rparr>\<rparr>"
    have u: "probes_unchanged this ?this1" by (simp add: probes_unchanged_def)
    show ?thesis
    proof (cases "last_points (state this)")
      case None
      with assms Some False conv have "this' = ?this1"
        by (simp add: doProcessNewObservation_body_def final_object_def Let_def)
      then show ?thesis by (simp add: probe_step_def probes_unchanged_def)
    next
      case lp: (Some lp)
      show ?thesis
      proof (cases have_points)
        case no: False
        with assms Some False conv lp have "this' = log_line LVL_WARN
           ''Observation could not be converted into a pointcloud. Doing nothing.'' ?this1"
          by (simp add: doProcessNewObservation_body_def final_object_def Let_def)
        then show ?thesis by (simp add: probe_step_def probes_unchanged_def log_line_def)
      next
        case True
        with assms Some False conv lp have
          "final_object (register_scan ext ob pts (last_obs_tim (state this)) lp ?this1)
             = Some this'"
          by (simp add: doProcessNewObservation_body_def Let_def)
        then have "probe_step ?this1 this'" by (rule register_scan_probes)
        with u show ?thesis by (rule probe_step_after_unchanged)
      qed
    qed
  qed
qed

lemma probe_step_before_unchanged:
  "probe_step a b \<Longrightarrow> probes_unchanged b c \<Longrightarrow> probe_step a c"
  by (auto simp: probe_step_def probes_unchanged_def one_new_probe_def)

lemma doProcessNewObservation_probes:
  assumes "doProcessNewObservation ext o_ptr this = Returns this'"
  shows "probe_step this this'"
proof -
  from assms obtain x where
    "final_object (doProcessNewObservation_body ext o_ptr this) = Some x"
    and u: "probes_unchanged x this'"
    unfolding doProcessNewObservation_def by (blast dest: catch_and_log_probes)
  then have "probe_step this x" by (blast intro: doProcessNewObservation_body_probes)
  then show ?thesis using u by (rule probe_step_before_unchanged)
qed

lemma doCheckForNonAdjacentKFs_body_probes:
  assumes "final_object (doCheckForNonAdjacentKFs_body ext d this) = Some this'"
  shows "probes_unchanged this this'"
proof (cases "from_pc d")
  case None
  with assms show ?thesis
    by (simp add: doCheckForNonAdjacentKFs_body_def final_object_def probes_unchanged_def)
next
  case f: (Some fpc)
  show ?thesis
  proof (cases "to_pc d")
    case None
    with assms f show ?thesis
      by (simp add: doCheckForNonAdjacentKFs_body_def final_object_def probes_unchanged_def)
  next
    case t: (Some tpc)
    show ?thesis
    proof (cases "run_one_icp ext (params this) fpc tpc (init_guess_to_wrt_from d)")
      case (Inl e)
      with assms f t show ?thesis
        by (simp add: doCheckForNonAdjacentKFs_body_def final_object_def probes_unchanged_def)
    next
      case (Inr res)
      obtain rel_pose g where "res = (rel_pose, g)" by (cases res)
      with assms f t Inr show ?thesis
        by (auto simp: doCheckForNonAdjacentKFs_body_def final_object_def
            probes_unchanged_def Let_def split: if_splits)
    qed
  qed
qed

lemma doCheckForNonAdjacentKFs_probes:
  assumes "doCheckForNonAdjacentKFs ext d this = Returns this'"
  shows "probes_unchanged this this'"
proof -
  from assms obtain x where
    "final_object (doCheckForNonAdjacentKFs_body ext d this) = Some x"
    and u: "probes_unchanged x this'"
    unfolding doCheckForNonAdjacentKFs_def by (blast dest: catch_and_log_probes)
  then have "probes_unchanged this x" by (blast intro: doCheckForNonAdjacentKFs_body_probes)
  then show ?thesis using u by (rule probes_unchanged_trans)
qed

lemma run_event_probes:
  assumes "final_object (run_event ext ev this) = Some this'"
  shows "(newly_submitted ev this this' = []
          \<and> checked_KF_pairs (state this') = checked_KF_pairs (state this))
       \<or> (\<exists>d. newly_submitted ev this this' = [d]
              \<and> probe_pair d \<notin> checked_KF_pairs (state this)
              \<and> checked_KF_pairs (state this')
                  = insert (probe_pair d) (checked_KF_pairs (state this)))"
proof (cases ev)
  case (SensorDriver now o_ptr)
  with assms have "worker_pool_past_KFs this' = worker_pool_past_KFs this
      \<and> state this' = state this"
    by (auto simp: run_event_def onNewObservation_def final_object_def Let_def
        MRPT_LOG_THROTTLE_WARN_def log_line_def split: option.splits if_splits)
  with SensorDriver show ?thesis by (simp add: newly_submitted_def pool_at_start_def)
next
  case (WorldModelChange wm)
  with assms have "this' = this\<lparr>worldmodel := wm\<rparr>"
    by (simp add: run_event_def final_object_def)
  with WorldModelChange show ?thesis by (simp add: newly_submitted_def pool_at_start_def)
next
  case ProbeWorker
  show ?thesis
  proof (cases "worker_pool_past_KFs this")
    case Nil
    with assms ProbeWorker have "this' = this"
      by (simp add: run_event_def final_object_def)
    with ProbeWorker Nil show ?thesis by (simp add: newly_submitted_def pool_at_start_def)
  next
    case (Cons d pending)
    with assms ProbeWorker have
      "doCheckForNonAdjacentKFs ext d (this\<lparr>worker_pool_past_KFs := pending\<rparr>) = Returns this'"
      by (simp add: run_event_def doCheckForNonAdjacentKFs_def) (rule catch_and_log_final)
    then have "probes_unchanged (this\<lparr>worker_pool_past_KFs := pending\<rparr>) this'"
      by (rule doCheckForNonAdjacentKFs_probes)
    with ProbeWorker Cons show ?thesis
      by (simp add: newly_submitted_def pool_at_start_def probes_unchanged_def)
  qed
next
  case OdometryWorker
  show ?thesis
  proof (cases "worker_pool this")
    case Nil
    with assms OdometryWorker have "this' = this"
      by (simp add: run_event_def final_object_def)
    with OdometryWorker show ?thesis by (simp add: newly_submitted_def pool_at_start_def)
  next
    case (Cons o_ptr pending)
    with assms OdometryWorker have
      "doProcessNewObservation ext o_ptr (this\<lparr>worker_pool := pending\<rparr>) = Returns this'"
      by (simp add: run_event_def doProcessNewObservation_def) (rule catch_and_log_final)
    then have "probe_step (this\<lparr>worker_pool := pending\<rparr>) this'"
      by (rule doProcessNewObservation_probes)
    with OdometryWorker show ?thesis
      by (auto simp: newly_submitted_def pool_at_start_def probe_step_def
          probes_unchanged_def one_new_probe_def)
  qed
qed

lemma run_keeps_dedup:
  assumes "run ext evs (this, submitted) = Some (this', submitted')"
    and "distinct (map probe_pair submitted)"
    and "set (map probe_pair submitted) = checked_KF_pairs (state this)"
  shows "distinct (map probe_pair submitted')
       \<and> set (map probe_pair submitted') = checked_KF_pairs (state this')"
  using assms
proof (induction evs arbitrary: this submitted)
  case Nil
  then show ?case by simp
next
  case (Cons ev evs)
  from Cons.prems(1) obtain x where
    fo: "final_object (run_event ext ev this) = Some x"
    and rest: "run ext evs (x, submitted @ newly_submitted ev this x) = Some (this', submitted')"
    by (auto simp: newly_submitted_def split: option.splits)
  from run_event_probes [OF fo] Cons.prems(2,3)
  have "distinct (map probe_pair (submitted @ newly_submitted ev this x))
      \<and> set (map probe_pair (submitted @ newly_submitted ev this x))
          = checked_KF_pairs (state x)"
    by auto
  with Cons.IH [OF rest] show ?case by blast
qed

text \<open>
  The pair of lines 332 to 333 does not depend on the order of the two ids: two probes
  get the same pair exactly when they are about the same two keyframes.
\<close>

lemma pair_ids_of_unordered:
  "pair_ids_of a b = pair_ids_of c d \<longleftrightarrow> {a, b} = {c, d}"
  by (auto simp: pair_ids_of_def min_def max_def doubleton_eq_iff split: if_splits)

lemma probe_pair_unordered:
  "probe_pair d = probe_pair d' \<longleftrightarrow> unordered_pair d = unordered_pair d'"
  by (simp add: probe_pair_def unordered_pair_def pair_ids_of_unordered)

lemma probe_pair_normalised:
  "probe_pair d = (min (to_id d) (from_id d), max (to_id d) (from_id d))"
  by (simp add: probe_pair_def pair_ids_of_def)

text \<open>
  Claim C7. In a run that starts with no checked pair, the probes handed to the probe
  pool are about pairwise different unordered pairs of keyframes, whichever of the two
  is the root, and \<open>checked_KF_pairs\<close> holds exactly the pairs (smaller id, larger id)
  of these probes: a pair enters the set when its probe is dispatched and at no other
  time, and a pair in the set is never dispatched again.
\<close>

theorem probe_dedup:
  assumes "run ext evs (this, []) = Some (this', submitted)"
    and "checked_KF_pairs (state this) = {}"
  shows "distinct (map unordered_pair submitted)
       \<and> checked_KF_pairs (state this')
           = (\<lambda>d. (min (to_id d) (from_id d), max (to_id d) (from_id d))) ` set submitted"
proof -
  from run_keeps_dedup [OF assms(1)] assms(2)
  have d: "distinct (map probe_pair submitted)"
    and s: "set (map probe_pair submitted) = checked_KF_pairs (state this')"
    by simp_all
  from d have "distinct submitted" and inj: "inj_on probe_pair (set submitted)"
    by (simp_all add: distinct_map)
  from inj have "inj_on unordered_pair (set submitted)"
    by (auto simp: inj_on_def probe_pair_unordered)
  with \<open>distinct submitted\<close> have "distinct (map unordered_pair submitted)"
    by (simp add: distinct_map)
  moreover have "probe_pair ` set submitted
      = (\<lambda>d. (min (to_id d) (from_id d), max (to_id d) (from_id d))) ` set submitted"
    by (rule image_cong) (simp_all add: probe_pair_normalised)
  with s have "checked_KF_pairs (state this')
      = (\<lambda>d. (min (to_id d) (from_id d), max (to_id d) (from_id d))) ` set submitted"
    by simp
  ultimately show ?thesis by simp
qed

text \<open>
  Two runs. In the line world, eight scans and one probe task: the fifth scan
  dispatches the probe from 4 to 2; the sixth one selects the pair again and skips it;
  the seventh dispatches the probe from 5 to 3; the eighth selects it again and skips
  it. With the back-end that numbers the keyframes downwards, the probe goes from the
  root 97 to keyframe 99 and the pair recorded is (97, 99).
\<close>

theorem probe_dedup_witness:
  "checked_KF_pairs (state demo_frontend) = {}
   \<and> (\<exists>this' submitted.
        run line_externals
          (drive (scan 1 0 0.9) @ drive (scan 2 1.2 0.9) @ drive (scan 3 2.4 0.9)
           @ drive (scan 4 3.6 0.9) @ drive (scan 5 4.8 0.9) @ drive (scan 6 5.3 0.9)
           @ [ProbeWorker] @ drive (scan 7 6 0.9) @ drive (scan 8 6.4 0.9))
          (demo_frontend, []) = Some (this', submitted)
        \<and> map (\<lambda>d. (to_id d, from_id d)) submitted = [(2, 4), (3, 5)]
        \<and> checked_KF_pairs (state this') = {(2, 4), (3, 5)})
   \<and> (\<exists>this' submitted.
        run descending_externals
          (drive (scan 1 0 0.9) @ drive (scan 2 1.2 0.9) @ drive (scan 3 2.4 0.9)
           @ drive (scan 4 3.6 0.9) @ drive (scan 5 4.8 0.9) @ drive (scan 6 5.3 0.9))
          (demo_frontend, []) = Some (this', submitted)
        \<and> map (\<lambda>d. (to_id d, from_id d)) submitted = [(99, 97)]
        \<and> checked_KF_pairs (state this') = {(97, 99)})"
proof -
  have h: "checked_KF_pairs (state demo_frontend) = {}"
    by (simp add: demo_defs)
  have "\<exists>this' submitted.
        run line_externals
          (drive (scan 1 0 0.9) @ drive (scan 2 1.2 0.9) @ drive (scan 3 2.4 0.9)
           @ drive (scan 4 3.6 0.9) @ drive (scan 5 4.8 0.9) @ drive (scan 6 5.3 0.9)
           @ [ProbeWorker] @ drive (scan 7 6 0.9) @ drive (scan 8 6.4 0.9))
          (demo_frontend, []) = Some (this', submitted)
        \<and> map (\<lambda>d. (to_id d, from_id d)) submitted = [(2, 4), (3, 5)]"
    by (simp add: frontend_defs demo_defs)
  then obtain this1 submitted1 where
    r1: "run line_externals
          (drive (scan 1 0 0.9) @ drive (scan 2 1.2 0.9) @ drive (scan 3 2.4 0.9)
           @ drive (scan 4 3.6 0.9) @ drive (scan 5 4.8 0.9) @ drive (scan 6 5.3 0.9)
           @ [ProbeWorker] @ drive (scan 7 6 0.9) @ drive (scan 8 6.4 0.9))
          (demo_frontend, []) = Some (this1, submitted1)"
    and s1: "map (\<lambda>d. (to_id d, from_id d)) submitted1 = [(2, 4), (3, 5)]"
    by (elim exE conjE)
  from s1 obtain d1 d2 where "submitted1 = [d1, d2]"
    "to_id d1 = 2" "from_id d1 = 4" "to_id d2 = 3" "from_id d2 = 5"
    by (auto simp: map_eq_Cons_conv)
  with probe_dedup [OF r1 h] have c1: "checked_KF_pairs (state this1) = {(2, 4), (3, 5)}"
    by simp
  have "\<exists>this' submitted.
        run descending_externals
          (drive (scan 1 0 0.9) @ drive (scan 2 1.2 0.9) @ drive (scan 3 2.4 0.9)
           @ drive (scan 4 3.6 0.9) @ drive (scan 5 4.8 0.9) @ drive (scan 6 5.3 0.9))
          (demo_frontend, []) = Some (this', submitted)
        \<and> map (\<lambda>d. (to_id d, from_id d)) submitted = [(99, 97)]"
    by (simp add: frontend_defs demo_defs)
  then obtain this2 submitted2 where
    r2: "run descending_externals
          (drive (scan 1 0 0.9) @ drive (scan 2 1.2 0.9) @ drive (scan 3 2.4 0.9)
           @ drive (scan 4 3.6 0.9) @ drive (scan 5 4.8 0.9) @ drive (scan 6 5.3 0.9))
          (demo_frontend, []) = Some (this2, submitted2)"
    and s2: "map (\<lambda>d. (to_id d, from_id d)) submitted2 = [(99, 97)]"
    by (elim exE conjE)
  from s2 obtain d3 where "submitted2 = [d3]" "to_id d3 = 99" "from_id d3 = 97"
    by (auto simp: map_eq_Cons_conv)
  with probe_dedup [OF r2 h] have c2: "checked_KF_pairs (state this2) = {(97, 99)}"
    by simp
  from r1 s1 c1 have e1: "\<exists>this' submitted.
        run line_externals
          (drive (scan 1 0 0.9) @ drive (scan 2 1.2 0.9) @ drive (scan 3 2.4 0.9)
           @ drive (scan 4 3.6 0.9) @ drive (scan 5 4.8 0.9) @ drive (scan 6 5.3 0.9)
           @ [ProbeWorker] @ drive (scan 7 6 0.9) @ drive (scan 8 6.4 0.9))
          (demo_frontend, []) = Some (this', submitted)
        \<and> map (\<lambda>d. (to_id d, from_id d)) submitted = [(2, 4), (3, 5)]
        \<and> checked_KF_pairs (state this') = {(2, 4), (3, 5)}"
    by (intro exI conjI)
  from r2 s2 c2 have e2: "\<exists>this' submitted.
        run descending_externals
          (drive (scan 1 0 0.9) @ drive (scan 2 1.2 0.9) @ drive (scan 3 2.4 0.9)
           @ drive (scan 4 3.6 0.9) @ drive (scan 5 4.8 0.9) @ drive (scan 6 5.3 0.9))
          (demo_frontend, []) = Some (this', submitted)
        \<and> map (\<lambda>d. (to_id d, from_id d)) submitted = [(99, 97)]
        \<and> checked_KF_pairs (state this') = {(97, 99)}"
    by (intro exI conjI)
  from h e1 e2 show ?thesis by (intro conjI)
qed

subsection \<open>The eviction loop\<close>

text \<open>
  The loop tests the number of nodes and takes from the distance map. When the map has
  too few entries for the nodes that are to go, the loop ends on \<open>rbegin()\<close> of an
  empty map.
\<close>

lemma map_erase_absent: "k \<notin> fst ` set m \<Longrightarrow> map_erase k m = m"
  by (induction m) (auto simp: map_erase_def)

lemma length_map_erase:
  "distinct (map fst m) \<Longrightarrow> length m \<le> Suc (length (map_erase k m))"
proof (induction m)
  case Nil
  then show ?case by (simp add: map_erase_def)
next
  case (Cons e m)
  show ?case
  proof (cases "fst e = k")
    case True
    with Cons.prems have "k \<notin> fst ` set m" by auto
    then have "map_erase k m = m" by (rule map_erase_absent)
    then have "map_erase k (e # m) = m" using True by (simp add: map_erase_def)
    then show ?thesis by simp
  next
    case False
    then have "map_erase k (e # m) = e # map_erase k m" by (simp add: map_erase_def)
    with Cons show ?thesis by simp
  qed
qed

lemma distinct_map_erase:
  "distinct (map fst m) \<Longrightarrow> distinct (map fst (map_erase k m))"
  by (simp add: map_erase_def distinct_map_filter)

lemma evict_loop_undefined:
  assumes "distinct (map fst (nodes lpg))"
    and "max_KFs + length KF < length (nodes lpg)"
  shows "evict_loop max_KFs adj KF lpg pcs = None"
  using assms
proof (induction max_KFs adj KF lpg pcs rule: evict_loop.induct)
  case (1 max_KFs adj KF lpg pcs)
  from "1.prems"(2) have over: "length (nodes lpg) > max_KFs" by simp
  show ?case
  proof (cases "KF = []")
    case True
    with over show ?thesis by (subst evict_loop.simps) simp
  next
    case False
    let ?id = "snd (last KF)"
    let ?lpg = "lpg\<lparr>nodes := map_erase ?id (nodes lpg),
                    edges := erase_incident ?id (adj ?id) (edges lpg)\<rparr>"
    have d: "distinct (map fst (nodes ?lpg))"
      using "1.prems"(1) by (simp add: distinct_map_erase)
    have "length (nodes lpg) \<le> Suc (length (nodes ?lpg))"
      using "1.prems"(1) by (simp add: length_map_erase)
    with "1.prems"(2) False have "max_KFs + length (butlast KF) < length (nodes ?lpg)"
      by (cases KF rule: rev_cases) auto
    from "1.IH" [OF over False refl refl refl refl d this] over False show ?thesis
      by (subst evict_loop.simps) (simp add: Let_def)
  qed
qed

text \<open>The two graphs are what the graph library of the line world computes.\<close>

lemma tied_graph_is_dijkstra:
  "dijkstra_nodes_estimate line_externals (tied_graph\<lparr>nodes := [(4, 0)]\<rparr>) = Inr tied_graph"
  "dijkstra_nodes_estimate line_externals (returning_graph\<lparr>nodes := [(4, 0)]\<rparr>)
     = Inr returning_graph"
  by (simp_all add: demo_defs)

text \<open>
  Claim C5, at two failing inputs. Keyframes 1 and 2 are both 2.4 away from the root,
  keyframe 3 is 1.2 away: the distance map holds one entry for 2.4, that of keyframe 2.
  With a cap of 2 the loop removes keyframe 2 and then keyframe 3, although keyframe 1
  is farther from the root than keyframe 3, and keyframe 1 stays. When keyframes 1, 2
  and 3 are all 1.2 away and the cap is 1, the loop removes keyframe 3 and the root,
  finds the distance map empty with two nodes left, and reads \<open>rbegin()\<close> of the empty
  map: undefined behaviour, and no bound on the number of nodes.
\<close>

theorem eviction_with_tied_distances:
  "KF_distances_of line_externals (nodes tied_graph)
     = [(Finite 0, 4), (Finite 1.2, 3), (Finite 2.4, 2)]
   \<and> evict_loop 2 (getAdjacencyMatrix (edges tied_graph))
        (KF_distances_of line_externals (nodes tied_graph)) tied_graph four_clouds
       = Some ([(Finite 0, 4)],
               tied_graph\<lparr>nodes := [(1, 2.4), (4, 0)], edges := []\<rparr>,
               [(1, Some (1, 0.9)), (4, Some (4, 0.9))])
   \<and> KF_distances_of line_externals (nodes returning_graph)
       = [(Finite 0, 4), (Finite 1.2, 3)]
   \<and> evict_loop 1 (getAdjacencyMatrix (edges returning_graph))
        (KF_distances_of line_externals (nodes returning_graph)) returning_graph four_clouds
       = None"
  by (simp add: frontend_defs demo_defs)

subsection \<open>Nodes and point clouds\<close>










text \<open>
  The state of the witness is reached by the code: three scans of the line world with a
  local graph of at most 2 nodes.
\<close>

lemma two_keyframes_reached:
  "run line_externals
     (drive (scan 1 0 0.9) @ drive (scan 2 1.2 0.9) @ drive (scan 3 2.4 0.9))
     (small_frontend, [])
   = Some (two_keyframes, [])"
  by (simp add: frontend_defs demo_defs)



text \<open>
  The condition on the edges is needed. With a cap of 2 nodes, keyframe 1 at 1.2,
  keyframe 2 at 4 and keyframe 3 back at 2, the eviction of keyframe 2 takes away the
  two edges that tied keyframe 1 to the root. In the next check no edge is left, the
  graph library reaches the root only, and keyframe 1 has a cloud and is no node.
\<close>

lemma orphaned_keyframe:
  "\<exists>this' submitted.
     run line_externals
       (drive (scan 1 0 0.9) @ drive (scan 2 1.2 0.9) @ drive (scan 3 4 0.9)
        @ drive (scan 4 2 0.9) @ drive (scan 5 2.1 0.9))
       (small_frontend, []) = Some (this', submitted)
     \<and> nodes (local_pose_graph (state this')) = [(3, 0)]
     \<and> local_pcs (state this') = [(1, Some (1.2, 0.9)), (3, Some (2, 0.9))]
     \<and> edges (local_pose_graph (state this')) = []
     \<and> connected_ids (edges (local_pose_graph (state this'))) 3 = {3}
     \<and> \<not> cloud_coherent this'"
  by (simp add: frontend_defs demo_defs cloud_coherent_def map_keys_def)

end
